theory Spec2Isabelle
  imports Complex_Main
begin

section \<open>JSON documents and JavaScript coercions\<close>

text \<open>
  Tool arguments and remote responses are JSON documents. A JavaScript value read from
  such a document (a property access, a destructured variable) is a \<open>json option\<close>,
  where \<open>None\<close> is \<open>undefined\<close>. An object keeps its properties in insertion order.
\<close>

datatype json =
    JNull
  | JBool bool
  | JNum rat
  | JStr string
  | JArr "json list"
  | JObj "(string \<times> json) list"

type_synonym jsobject = "(string \<times> json) list"

text \<open>Property access \<open>obj.k\<close> on an object; an absent property reads as \<open>undefined\<close>.\<close>

definition get_prop :: "jsobject \<Rightarrow> string \<Rightarrow> json option" where
  "get_prop obj k = map_of obj k"

text \<open>JavaScript truthiness, as tested by \<open>if (v)\<close>, \<open>!v\<close> and \<open>v || w\<close>.\<close>

fun truthy :: "json option \<Rightarrow> bool" where
  "truthy None = False"
| "truthy (Some JNull) = False"
| "truthy (Some (JBool b)) = b"
| "truthy (Some (JNum n)) = (n \<noteq> 0)"
| "truthy (Some (JStr s)) = (s \<noteq> [])"
| "truthy (Some (JArr xs)) = True"
| "truthy (Some (JObj kvs)) = True"

text \<open>The operator \<open>a || b\<close>.\<close>

definition js_or :: "json option \<Rightarrow> json option \<Rightarrow> json option" where
  "js_or a b = (if truthy a then a else b)"

text \<open>
  \<open>JSON.stringify\<close> of an object literal whose property values may be \<open>undefined\<close>:
  such properties are left out of the text. The text is kept as the document it spells.
\<close>

definition JSON_stringify :: "(string \<times> json option) list \<Rightarrow> json" where
  "JSON_stringify props = JObj (List.map_filter (\<lambda>(k, v). map_option (Pair k) v) props)"

text \<open>
  The rest pattern \<open>const { id, ...updates } = args\<close>: every own property of
  \<open>args\<close> other than \<open>id\<close>, in order.
\<close>

definition rest_without :: "string \<Rightarrow> jsobject \<Rightarrow> jsobject" where
  "rest_without k obj = filter (\<lambda>(k', v). k' \<noteq> k) obj"

text \<open>
  What the JavaScript platform and the protocol SDK compute, taken as parameters:
  string coercion in a template literal, the form encoding of \<open>URLSearchParams\<close>,
  the engine's wording of a \<open>TypeError\<close> raised at a named expression, and the
  message the SDK's \<open>McpError\<close> constructor builds.
\<close>

datatype ErrorCode = MethodNotFound | InternalError

record platform =
  toStr :: "json option \<Rightarrow> string"
  urlSearchParams :: "(string \<times> string) list \<Rightarrow> string"
  typeErrorMessage :: "string \<Rightarrow> string"
  mcpErrorMessage :: "ErrorCode \<Rightarrow> string \<Rightarrow> string"

text \<open>
  A thrown value: an \<open>Error\<close> with its message (a \<open>TypeError\<close> is one), or the
  SDK's \<open>McpError\<close> with its code and the message it was built from.
\<close>

datatype error = Error string | McpError ErrorCode string

definition message :: "platform \<Rightarrow> error \<Rightarrow> string" where
  "message pf e = (case e of Error m \<Rightarrow> m | McpError c m \<Rightarrow> mcpErrorMessage pf c m)"

section \<open>Remote API client (tools.ts, fetchAPI)\<close>

record APIClientConfig =
  baseUrl :: string
  token :: string

text \<open>
  A request body: the text produced by \<open>JSON.stringify\<close> (never empty), any other
  string, or a non-textual body (Blob, FormData, a buffer).
\<close>

datatype body_init = JsonText json | RawText string | NonText

record request_init =
  init_method :: "string option"
  init_body :: "body_init option"
  init_headers :: "(string \<rightharpoonup> string) option"

record request =
  url :: string
  req_method :: "string option"
  req_body :: "body_init option"
  req_headers :: "string \<rightharpoonup> string"

definition no_options :: request_init where
  "no_options = \<lparr>init_method = None, init_body = None, init_headers = None\<rparr>"

text \<open>The test \<open>options.body && typeof options.body === 'string'\<close>.\<close>

fun body_is_string :: "body_init option \<Rightarrow> bool" where
  "body_is_string (Some (JsonText j)) = True"
| "body_is_string (Some (RawText s)) = True"
| "body_is_string (Some NonText) = False"
| "body_is_string None = False"

fun body_truthy :: "body_init option \<Rightarrow> bool" where
  "body_truthy (Some (JsonText j)) = True"
| "body_truthy (Some (RawText s)) = (s \<noteq> [])"
| "body_truthy (Some NonText) = True"
| "body_truthy None = False"

text \<open>The request that \<open>fetchAPI\<close> hands to \<open>fetch\<close>.\<close>

definition fetchAPI :: "APIClientConfig \<Rightarrow> string \<Rightarrow> request_init \<Rightarrow> request" where
  "fetchAPI config path options =
     (let url = baseUrl config @ path;
          headers = [''Authorization'' \<mapsto> ''Bearer '' @ token config]
                      ++ (case init_headers options of None \<Rightarrow> Map.empty | Some h \<Rightarrow> h);
          headers = (if body_truthy (init_body options) \<and> body_is_string (init_body options)
                     then headers(''Content-Type'' \<mapsto> ''application/json'')
                     else headers)
      in \<lparr>url = url, req_method = init_method options, req_body = init_body options,
          req_headers = headers\<rparr>)"

text \<open>
  The remote service: \<open>fetch\<close> either rejects with an error message or resolves to a
  response, whose \<open>json()\<close> in turn either rejects or yields a document.
\<close>

record response =
  ok :: bool
  statusText :: string
  json_of :: "string + json"

type_synonym remote = "request \<Rightarrow> string + response"

section \<open>Tool catalog and dispatcher (tools.ts, handleToolCall)\<close>

text \<open>The names of the descriptors in \<open>TOOLS\<close>, in order.\<close>

definition TOOLS :: "string list" where
  "TOOLS = [''create_note'', ''get_note'', ''update_note'', ''delete_note'', ''list_notes'',
            ''search_notes'', ''create_collection'', ''update_collection'', ''get_collection'',
            ''list_collections'', ''move_note'']"

text \<open>
  \<open>await fetchAPI(...)\<close> followed by \<open>if (!response.ok) throw new Error(...)\<close>: the
  pattern every case of the dispatcher repeats, with the case's own failure prefix.
\<close>

definition awaited :: "remote \<Rightarrow> request \<Rightarrow> string \<Rightarrow> (response \<Rightarrow> error + 'a) \<Rightarrow> error + 'a" where
  "awaited fetch req failure k =
     (case fetch req of
        Inl m \<Rightarrow> Inl (Error m)
      | Inr r \<Rightarrow> if \<not> ok r then Inl (Error (failure @ statusText r)) else k r)"

definition response_json :: "response \<Rightarrow> error + json" where
  "response_json r = (case json_of r of Inl m \<Rightarrow> Inl (Error m) | Inr j \<Rightarrow> Inr j)"

text \<open>
  \<open>data.pastes\<close> as the receiver of \<open>.filter\<close>: anything but an object with an array
  under \<open>pastes\<close> raises a \<open>TypeError\<close>.
\<close>

fun pastes_array :: "platform \<Rightarrow> json \<Rightarrow> error + json list" where
  "pastes_array pf (JObj kvs) =
     (case get_prop kvs ''pastes'' of
        Some (JArr ps) \<Rightarrow> Inr ps
      | _ \<Rightarrow> Inl (Error (typeErrorMessage pf ''data.pastes.filter'')))"
| "pastes_array pf _ = Inl (Error (typeErrorMessage pf ''data.pastes.filter''))"

text \<open>
  \<open>p.type\<close> inside the filter callback: reading a property of \<open>null\<close> raises, a
  primitive or an array has no such property.
\<close>

fun item_type :: "platform \<Rightarrow> json \<Rightarrow> error + json option" where
  "item_type pf JNull = Inl (Error (typeErrorMessage pf ''p.type''))"
| "item_type pf (JObj kvs) = Inr (get_prop kvs ''type'')"
| "item_type pf _ = Inr None"

text \<open>\<open>pastes.filter(p => keep(p.type))\<close>; the first raising element aborts the call.\<close>

fun filter_pastes :: "platform \<Rightarrow> (json option \<Rightarrow> bool) \<Rightarrow> json list \<Rightarrow> error + json list" where
  "filter_pastes pf keep [] = Inr []"
| "filter_pastes pf keep (p # ps) =
     (case item_type pf p of
        Inl e \<Rightarrow> Inl e
      | Inr t \<Rightarrow>
          (case filter_pastes pf keep ps of
             Inl e \<Rightarrow> Inl e
           | Inr r \<Rightarrow> Inr (if keep t then p # r else r)))"

definition is_collection :: "json option \<Rightarrow> bool" where
  "is_collection t = (t = Some (JStr ''collection''))"

text \<open>
  The path of \<open>list_notes\<close> and \<open>list_collections\<close>: \<open>/api/pastes\<close> with the query
  string of \<open>URLSearchParams\<close>, to which \<open>parentId\<close> is added when truthy.
\<close>

definition list_path :: "platform \<Rightarrow> json option \<Rightarrow> string" where
  "list_path pf parentId =
     (let params = (if truthy parentId then [(''parentId'', toStr pf parentId)] else []);
          queryString = urlSearchParams pf params
      in ''/api/pastes'' @ (if queryString \<noteq> [] then ''?'' @ queryString else []))"

text \<open>
  The children of \<open>get_collection\<close>: \<open>childrenData.pastes\<close>, which raises on
  \<open>null\<close> and is \<open>undefined\<close> on anything without that property.
\<close>

fun children_of :: "platform \<Rightarrow> json \<Rightarrow> error + json option" where
  "children_of pf JNull = Inl (Error (typeErrorMessage pf ''childrenData.pastes''))"
| "children_of pf (JObj kvs) = Inr (get_prop kvs ''pastes'')"
| "children_of pf _ = Inr None"

text \<open>
  The dispatcher. The result is the list of outbound requests, in order, and either
  the thrown error or the returned value (as the document \<open>JSON.stringify\<close> makes of
  it). Destructuring \<open>args\<close> raises when the protocol request carried no arguments.
\<close>

definition handleToolCall ::
  "platform \<Rightarrow> remote \<Rightarrow> APIClientConfig \<Rightarrow> string \<Rightarrow> jsobject option
     \<Rightarrow> request list \<times> (error + json)" where
  "handleToolCall pf fetch config toolName args =
    (let undefined_args = ([], Inl (Error (typeErrorMessage pf ''args''))) in
     if toolName = ''create_note'' then
       (case args of None \<Rightarrow> undefined_args | Some a \<Rightarrow>
          let req = fetchAPI config ''/api/pastes''
                \<lparr>init_method = Some ''POST'',
                 init_body = Some (JsonText (JSON_stringify
                   [(''type'', Some (JStr ''text'')),
                    (''title'', get_prop a ''title''),
                    (''content'', get_prop a ''content''),
                    (''parentId'', get_prop a ''parentId''),
                    (''fields'', get_prop a ''fields'')])),
                 init_headers = None\<rparr>
          in ([req], awaited fetch req ''Failed to create note: '' response_json))
     else if toolName = ''get_note'' then
       (case args of None \<Rightarrow> undefined_args | Some a \<Rightarrow>
          let req = fetchAPI config (''/api/pastes/'' @ toStr pf (get_prop a ''id'')) no_options
          in ([req], awaited fetch req ''Failed to get note: '' response_json))
     else if toolName = ''update_note'' then
       (case args of None \<Rightarrow> undefined_args | Some a \<Rightarrow>
          let req = fetchAPI config (''/api/pastes/'' @ toStr pf (get_prop a ''id''))
                \<lparr>init_method = Some ''PUT'',
                 init_body = Some (JsonText (JObj (rest_without ''id'' a))),
                 init_headers = None\<rparr>
          in ([req], awaited fetch req ''Failed to update note: '' response_json))
     else if toolName = ''delete_note'' then
       (case args of None \<Rightarrow> undefined_args | Some a \<Rightarrow>
          let req = fetchAPI config (''/api/pastes/'' @ toStr pf (get_prop a ''id''))
                \<lparr>init_method = Some ''DELETE'', init_body = None, init_headers = None\<rparr>
          in ([req], awaited fetch req ''Failed to delete note: ''
                (\<lambda>r. Inr (JSON_stringify
                   [(''success'', Some (JBool True)), (''id'', get_prop a ''id'')]))))
     else if toolName = ''list_notes'' then
       (case args of None \<Rightarrow> undefined_args | Some a \<Rightarrow>
          let req = fetchAPI config (list_path pf (get_prop a ''parentId'')) no_options
          in ([req], awaited fetch req ''Failed to list notes: ''
                (\<lambda>r. case response_json r of Inl e \<Rightarrow> Inl e | Inr data \<Rightarrow>
                   (case pastes_array pf data of Inl e \<Rightarrow> Inl e | Inr ps \<Rightarrow>
                      (case filter_pastes pf (\<lambda>t. \<not> is_collection t) ps of
                         Inl e \<Rightarrow> Inl e
                       | Inr notes \<Rightarrow> Inr (JObj [(''notes'', JArr notes)]))))))
     else if toolName = ''search_notes'' then
       (case args of None \<Rightarrow> undefined_args | Some a \<Rightarrow>
          let params = [(''q'', toStr pf (get_prop a ''query''))]
                @ (if truthy (get_prop a ''parentId'')
                   then [(''parentId'', toStr pf (get_prop a ''parentId''))] else []);
              req = fetchAPI config (''/api/pastes?'' @ urlSearchParams pf params) no_options
          in ([req], awaited fetch req ''Failed to search notes: ''
                (\<lambda>r. case response_json r of Inl e \<Rightarrow> Inl e | Inr data \<Rightarrow>
                   (case pastes_array pf data of Inl e \<Rightarrow> Inl e | Inr ps \<Rightarrow>
                      (case filter_pastes pf (\<lambda>t. \<not> is_collection t) ps of
                         Inl e \<Rightarrow> Inl e
                       | Inr notes \<Rightarrow> Inr (JObj [(''notes'', JArr notes)]))))))
     else if toolName = ''create_collection'' then
       (case args of None \<Rightarrow> undefined_args | Some a \<Rightarrow>
          let req = fetchAPI config ''/api/pastes''
                \<lparr>init_method = Some ''POST'',
                 init_body = Some (JsonText (JSON_stringify
                   [(''type'', Some (JStr ''collection'')),
                    (''title'', get_prop a ''title''),
                    (''parentId'', get_prop a ''parentId''),
                    (''fieldDefinitions'', get_prop a ''fieldDefinitions''),
                    (''displayFields'',
                       js_or (get_prop a ''displayFields'')
                         (Some (JArr [JStr ''title'', JStr ''type'', JStr ''createdAt'']))),
                    (''viewMode'', Some (JStr ''grid'')),
                    (''sortField'', Some (JStr ''createdAt'')),
                    (''sortDirection'', Some (JStr ''desc''))])),
                 init_headers = None\<rparr>
          in ([req], awaited fetch req ''Failed to create collection: '' response_json))
     else if toolName = ''update_collection'' then
       (case args of None \<Rightarrow> undefined_args | Some a \<Rightarrow>
          let req = fetchAPI config (''/api/pastes/'' @ toStr pf (get_prop a ''id''))
                \<lparr>init_method = Some ''PUT'',
                 init_body = Some (JsonText (JObj (rest_without ''id'' a))),
                 init_headers = None\<rparr>
          in ([req], awaited fetch req ''Failed to update collection: '' response_json))
     else if toolName = ''get_collection'' then
       (case args of None \<Rightarrow> undefined_args | Some a \<Rightarrow>
          let req = fetchAPI config (''/api/pastes/'' @ toStr pf (get_prop a ''id'')) no_options
          in (case awaited fetch req ''Failed to get collection: '' response_json of
                Inl e \<Rightarrow> ([req], Inl e)
              | Inr collection \<Rightarrow>
                  if \<not> truthy (get_prop a ''includeChildren'')
                  then ([req], Inr (JSON_stringify [(''collection'', Some collection)]))
                  else
                    let childrenReq = fetchAPI config
                          (''/api/pastes?parentId='' @ toStr pf (get_prop a ''id'')) no_options
                    in ([req, childrenReq],
                        awaited fetch childrenReq ''Failed to get collection children: ''
                          (\<lambda>r. case response_json r of Inl e \<Rightarrow> Inl e | Inr childrenData \<Rightarrow>
                             (case children_of pf childrenData of
                                Inl e \<Rightarrow> Inl e
                              | Inr children \<Rightarrow>
                                  Inr (JSON_stringify
                                    [(''collection'', Some collection),
                                     (''children'', children)]))))))
     else if toolName = ''list_collections'' then
       (case args of None \<Rightarrow> undefined_args | Some a \<Rightarrow>
          let req = fetchAPI config (list_path pf (get_prop a ''parentId'')) no_options
          in ([req], awaited fetch req ''Failed to list collections: ''
                (\<lambda>r. case response_json r of Inl e \<Rightarrow> Inl e | Inr data \<Rightarrow>
                   (case pastes_array pf data of Inl e \<Rightarrow> Inl e | Inr ps \<Rightarrow>
                      (case filter_pastes pf is_collection ps of
                         Inl e \<Rightarrow> Inl e
                       | Inr collections \<Rightarrow> Inr (JObj [(''collections'', JArr collections)]))))))
     else if toolName = ''move_note'' then
       (case args of None \<Rightarrow> undefined_args | Some a \<Rightarrow>
          let req = fetchAPI config (''/api/pastes/'' @ toStr pf (get_prop a ''id'') @ ''/move'')
                \<lparr>init_method = Some ''POST'',
                 init_body = Some (JsonText (JSON_stringify
                   [(''targetParentId'', js_or (get_prop a ''targetParentId'') (Some JNull))])),
                 init_headers = None\<rparr>
          in ([req], awaited fetch req ''Failed to move note: '' response_json))
     else ([], Inl (McpError MethodNotFound (''Unknown tool: '' @ toolName))))"

section \<open>Server factory (tools.ts, createMCPServer)\<close>

record CallToolRequest =
  name :: string
  arguments :: "jsobject option"

text \<open>
  The result envelope \<open>{ content: [{ type: 'text', text: JSON.stringify(result, null, 2) }] }\<close>,
  kept as the document the text spells.
\<close>

datatype CallToolResult = TextContent json

text \<open>
  The handler registered for \<open>CallToolRequestSchema\<close>: what it returns or throws to
  the protocol engine, with the outbound requests made on the way.
\<close>

definition callToolHandler ::
  "platform \<Rightarrow> remote \<Rightarrow> APIClientConfig \<Rightarrow> CallToolRequest
     \<Rightarrow> request list \<times> (error + CallToolResult)" where
  "callToolHandler pf fetch config request =
     (case handleToolCall pf fetch config (name request) (arguments request) of
        (calls, Inr result) \<Rightarrow> (calls, Inr (TextContent result))
      | (calls, Inl e) \<Rightarrow> (calls, Inl (McpError InternalError (message pf e))))"

section \<open>Session and transport manager (http-server.ts)\<close>

text \<open>
  A JavaScript \<open>Map\<close> with string keys, as the list of its entries in insertion order:
  \<open>set\<close> on a present key replaces the value in place, \<open>delete\<close> removes the entry.
\<close>

fun Map_set :: "(string \<times> 'v) list \<Rightarrow> string \<Rightarrow> 'v \<Rightarrow> (string \<times> 'v) list" where
  "Map_set [] k v = [(k, v)]"
| "Map_set ((k', v') # m) k v = (if k' = k then (k, v) # m else (k', v') # Map_set m k v)"

definition Map_delete :: "(string \<times> 'v) list \<Rightarrow> string \<Rightarrow> (string \<times> 'v) list" where
  "Map_delete m k = filter (\<lambda>(k', v). k' \<noteq> k) m"

definition Map_has :: "(string \<times> 'v) list \<Rightarrow> string \<Rightarrow> bool" where
  "Map_has m k = (map_of m k \<noteq> None)"

text \<open>
  Transports and protocol engines are objects with an identity: a reference, allocated
  from a counter. The two tables are the module's \<open>sseTransports\<close> and
  \<open>streamableTransports\<close>; the two close registries hold the session identifier each
  registered close callback has captured, by the transport of its connection.
\<close>

type_synonym ref = nat

record sessions =
  sseTransports :: "(string \<times> ref) list"
  streamableTransports :: "(string \<times> (ref \<times> string)) list"
  sseOnClose :: "(ref \<times> string) list"
  streamableOnClose :: "(ref \<times> string) list"
  next_ref :: nat

definition initial :: sessions where
  "initial = \<lparr>sseTransports = [], streamableTransports = [], sseOnClose = [],
              streamableOnClose = [], next_ref = 0\<rparr>"

text \<open>
  A value of the parsed query string \<open>req.query\<close>: a string, or the array or object
  that a repeated or bracketed parameter parses to. The handlers cast
  \<open>req.query.token as string\<close> without a check, so any of these can reach them.
\<close>

datatype query_value =
    QString string
  | QArray "query_value list"
  | QObject "(string \<times> query_value) list"

text \<open>What a handler reads from the HTTP request; an absent parameter is \<open>undefined\<close>.\<close>

record http_request =
  query_token :: "query_value option"
  mcp_session_id :: "string option"

text \<open>
  What the SDK and the platform decide while a handler runs: whether
  \<open>server.connect\<close> rejects, whether \<open>handleRequest\<close> or \<open>handlePostMessage\<close>
  rejects and whether the response headers were sent by then, the \<open>sessionId\<close> the
  transport holds after its first request, the clock and the random draw.
\<close>

record environment =
  connect_throws :: bool
  handle_throws :: bool
  headersSent :: bool
  transport_sessionId :: "string option"
  DateNow :: nat
  random36 :: string

text \<open>
  What a handler does, in order, besides updating the tables. \<open>Throw e\<close> is the end of
  a handler whose promise rejects with the error raised at the expression \<open>e\<close>, outside
  any \<open>try\<close>; the handler itself sends no response then.
\<close>

datatype action =
    Respond nat json
  | Throw string
  | NewStreamableTransport ref
  | NewSSEServerTransport ref
  | CreateMCPServer ref string string
  | Connect ref ref
  | HandleRequest ref
  | HandlePostMessage ref

definition startsWith :: "string \<Rightarrow> string \<Rightarrow> bool" where
  "startsWith s p = (take (length p) s = p)"

definition unauthorized :: action where
  "unauthorized = Respond 401 (JObj [(''error'', JStr ''Valid token required as query parameter'')])"

definition failed_request :: action where
  "failed_request = Respond 500 (JObj [(''error'', JStr ''Failed to handle request'')])"

definition failed_message :: action where
  "failed_message = Respond 500 (JObj [(''error'', JStr ''Failed to handle message'')])"

definition no_connection :: action where
  "no_connection = Respond 400 (JObj [(''error'', JStr ''No active SSE connection'')])"

text \<open>\<open>sessionId && streamableTransports.has(sessionId)\<close>, then \<open>get\<close>.\<close>

definition existing_session :: "sessions \<Rightarrow> string option \<Rightarrow> (ref \<times> string) option" where
  "existing_session st sessionId =
     (case sessionId of
        None \<Rightarrow> None
      | Some sid \<Rightarrow> if sid \<noteq> [] \<and> Map_has (streamableTransports st) sid
                    then map_of (streamableTransports st) sid else None)"

text \<open>
  \<open>app.post('/sse')\<close>. \<open>CreateMCPServer s url tok\<close> is
  \<open>createMCPServer({ baseUrl: url, token: tok })\<close> yielding the engine \<open>s\<close>.
  A token that is not a string is truthy and has no \<open>startsWith\<close> method: the call
  raises a \<open>TypeError\<close>. When \<open>server.connect\<close> rejects, outside the \<open>try\<close>, the
  handler ends there.
\<close>

definition post_sse :: "string \<Rightarrow> sessions \<Rightarrow> http_request \<Rightarrow> environment \<Rightarrow> sessions \<times> action list" where
  "post_sse FASTIDIOUS_URL st req env =
     (case query_token req of
        None \<Rightarrow> (st, [unauthorized])
      | Some (QArray vs) \<Rightarrow> (st, [Throw ''token.startsWith''])
      | Some (QObject kvs) \<Rightarrow> (st, [Throw ''token.startsWith''])
      | Some (QString tok) \<Rightarrow>
          if tok = [] \<or> \<not> startsWith tok ''fst_'' then (st, [unauthorized])
          else
            (case existing_session st (mcp_session_id req) of
               Some (transport, stored_token) \<Rightarrow>
                 (st, HandleRequest transport
                      # (if handle_throws env \<and> \<not> headersSent env then [failed_request] else []))
             | None \<Rightarrow>
                 let transport = next_ref st;
                     server = Suc (next_ref st);
                     st1 = st\<lparr>next_ref := next_ref st + 2\<rparr>;
                     created = [NewStreamableTransport transport,
                                CreateMCPServer server FASTIDIOUS_URL tok,
                                Connect server transport]
                 in if connect_throws env then (st1, created @ [Throw ''server.connect''])
                    else if handle_throws env
                    then (st1, created @ HandleRequest transport
                                 # (if \<not> headersSent env then [failed_request] else []))
                    else
                      (case transport_sessionId env of
                         None \<Rightarrow> (st1, created @ [HandleRequest transport])
                       | Some newSessionId \<Rightarrow>
                           if newSessionId \<noteq> []
                              \<and> \<not> Map_has (streamableTransports st1) newSessionId
                           then (st1\<lparr>streamableTransports :=
                                       Map_set (streamableTransports st1) newSessionId
                                         (transport, tok),
                                     streamableOnClose :=
                                       (transport, newSessionId) # streamableOnClose st1\<rparr>,
                                 created @ [HandleRequest transport])
                           else (st1, created @ [HandleRequest transport]))))"

text \<open>The \<open>transport.onclose\<close> callback of a stored streaming transport.\<close>

definition streamable_close :: "sessions \<Rightarrow> ref \<Rightarrow> sessions" where
  "streamable_close st transport =
     (case map_of (streamableOnClose st) transport of
        None \<Rightarrow> st
      | Some newSessionId \<Rightarrow>
          st\<lparr>streamableTransports := Map_delete (streamableTransports st) newSessionId\<rparr>)"

text \<open>Decimal digits of a number, as \<open>${Date.now()}\<close> prints it.\<close>

fun decimal :: "nat \<Rightarrow> string" where
  "decimal n = (if n < 10 then [''0123456789'' ! n]
                else decimal (n div 10) @ [''0123456789'' ! (n mod 10)])"

declare decimal.simps [simp del]

text \<open>\<open>`${Date.now()}-${Math.random().toString(36).substring(7)}`\<close>\<close>

definition sse_sessionId :: "environment \<Rightarrow> string" where
  "sse_sessionId env = decimal (DateNow env) @ ''-'' @ drop 7 (random36 env)"

text \<open>\<open>app.get('/sse')\<close>: the legacy event stream.\<close>

definition get_sse :: "string \<Rightarrow> sessions \<Rightarrow> http_request \<Rightarrow> environment \<Rightarrow> sessions \<times> action list" where
  "get_sse FASTIDIOUS_URL st req env =
     (case query_token req of
        None \<Rightarrow> (st, [unauthorized])
      | Some (QArray vs) \<Rightarrow> (st, [Throw ''token.startsWith''])
      | Some (QObject kvs) \<Rightarrow> (st, [Throw ''token.startsWith''])
      | Some (QString tok) \<Rightarrow>
          if tok = [] \<or> \<not> startsWith tok ''fst_'' then (st, [unauthorized])
          else
            let transport = next_ref st;
                sessionId = sse_sessionId env;
                server = Suc (next_ref st);
                st1 = st\<lparr>sseTransports := Map_set (sseTransports st) sessionId transport,
                         sseOnClose := (transport, sessionId) # sseOnClose st,
                         next_ref := next_ref st + 2\<rparr>;
                created = [NewSSEServerTransport transport,
                           CreateMCPServer server FASTIDIOUS_URL tok,
                           Connect server transport]
            in if connect_throws env
               then (st1\<lparr>sseTransports := Map_delete (sseTransports st1) sessionId\<rparr>, created)
               else (st1, created))"

text \<open>The \<open>res.on('close')\<close> callback of a legacy connection.\<close>

definition sse_close :: "sessions \<Rightarrow> ref \<Rightarrow> sessions" where
  "sse_close st transport =
     (case map_of (sseOnClose st) transport of
        None \<Rightarrow> st
      | Some sessionId \<Rightarrow> st\<lparr>sseTransports := Map_delete (sseTransports st) sessionId\<rparr>)"

text \<open>\<open>app.post('/message')\<close>: the last entry of the legacy table receives the message.\<close>

definition post_message :: "sessions \<Rightarrow> environment \<Rightarrow> sessions \<times> action list" where
  "post_message st env =
     (case sseTransports st of
        [] \<Rightarrow> (st, [no_connection])
      | e # es \<Rightarrow>
          (case last (e # es) of
             (sessionId, transport) \<Rightarrow>
               (st, HandlePostMessage transport
                    # (if handle_throws env then [failed_message] else []))))"

text \<open>
  The server as a machine over the events it receives: requests to the three endpoints
  and the close events of connections. A handler runs to its end before the next event
  is taken.
\<close>

datatype event =
    PostSse http_request environment
  | GetSse http_request environment
  | PostMessage environment
  | SseClose ref
  | StreamableClose ref

fun step :: "string \<Rightarrow> sessions \<Rightarrow> event \<Rightarrow> sessions \<times> action list" where
  "step u st (PostSse req env) = post_sse u st req env"
| "step u st (GetSse req env) = get_sse u st req env"
| "step u st (PostMessage env) = post_message st env"
| "step u st (SseClose t) = (sse_close st t, [])"
| "step u st (StreamableClose t) = (streamable_close st t, [])"

fun run :: "string \<Rightarrow> sessions \<Rightarrow> event list \<Rightarrow> sessions" where
  "run u st [] = st"
| "run u st (e # es) = run u (fst (step u st e)) es"

text \<open>
  The legacy sessions that are open after a sequence of events, oldest first: a
  session is opened by a \<open>GET /sse\<close> that creates a transport and connects it, and is
  no longer open once the close event of its connection has fired.
\<close>

fun opened_by :: "action list \<Rightarrow> environment \<Rightarrow> ref list" where
  "opened_by (NewSSEServerTransport t # acts) env = (if connect_throws env then [] else [t])"
| "opened_by acts env = []"

fun open_after :: "ref list \<Rightarrow> sessions \<times> action list \<Rightarrow> event \<Rightarrow> ref list" where
  "open_after opn (st', acts) (GetSse req env) = opn @ opened_by acts env"
| "open_after opn (st', acts) (SseClose t) = removeAll t opn"
| "open_after opn (st', acts) e = opn"

fun still_open :: "string \<Rightarrow> sessions \<Rightarrow> ref list \<Rightarrow> event list \<Rightarrow> ref list" where
  "still_open u st opn [] = opn"
| "still_open u st opn (e # es) =
     still_open u (fst (step u st e)) (open_after opn (step u st e) e) es"

text \<open>The session identifiers generated by the accepted \<open>GET /sse\<close> requests of a trace.\<close>

fun generated_ids :: "event list \<Rightarrow> string list" where
  "generated_ids [] = []"
| "generated_ids (GetSse req env # es) =
     (case query_token req of
        Some (QString tok) \<Rightarrow>
          if tok = [] \<or> \<not> startsWith tok ''fst_'' then generated_ids es
          else sse_sessionId env # generated_ids es
      | _ \<Rightarrow> generated_ids es)"
| "generated_ids (e # es) = generated_ids es"

section \<open>Notions the properties are stated with\<close>

text \<open>The type tag of an item of a listing: its \<open>type\<close> property, if it is an object.\<close>

definition item_type_of :: "json \<Rightarrow> json option" where
  "item_type_of p = (case p of JObj kvs \<Rightarrow> get_prop kvs ''type'' | _ \<Rightarrow> None)"

definition has_type_collection :: "json \<Rightarrow> bool" where
  "has_type_collection p = (item_type_of p = Some (JStr ''collection''))"

text \<open>
  What every reachable state of the streaming table satisfies: no session identifier
  is bound twice, none is empty, and every stored transport has been allocated.
\<close>

definition streamable_inv :: "sessions \<Rightarrow> bool" where
  "streamable_inv st \<longleftrightarrow>
     distinct (map fst (streamableTransports st))
     \<and> [] \<notin> fst ` set (streamableTransports st)
     \<and> (\<forall>e \<in> set (streamableTransports st). fst (snd e) < next_ref st)"

text \<open>
  What every reachable state of the legacy table satisfies, given the sessions \<open>opn\<close>
  that are open: the table holds their transports, each once, in the order they were opened, each
  under the identifier its close callback has captured; a transport has one callback,
  no two callbacks hold the same identifier, and every such transport has been allocated.
\<close>

definition legacy_inv :: "sessions \<Rightarrow> ref list \<Rightarrow> bool" where
  "legacy_inv st opn \<longleftrightarrow>
     map snd (sseTransports st) = opn
     \<and> distinct opn
     \<and> (\<forall>e \<in> set (sseTransports st). (snd e, fst e) \<in> set (sseOnClose st))
     \<and> distinct (map fst (sseOnClose st))
     \<and> distinct (map snd (sseOnClose st))
     \<and> (\<forall>e \<in> set (sseOnClose st). fst e < next_ref st)"

text \<open>Requests and environments to run the handlers on.\<close>

definition example_env :: "nat \<Rightarrow> string \<Rightarrow> environment" where
  "example_env now sid =
     \<lparr>connect_throws = False, handle_throws = False, headersSent = True,
      transport_sessionId = Some sid, DateNow = now, random36 = ''0.abcdefghij''\<rparr>"

definition example_request :: "string option \<Rightarrow> http_request" where
  "example_request sid = \<lparr>query_token = Some (QString ''fst_abc''), mcp_session_id = sid\<rparr>"

text \<open>A platform, a configuration and a remote service to run the definitions on.\<close>

definition example_platform :: platform where
  "example_platform =
     \<lparr>toStr = (\<lambda>v. case v of Some (JStr s) \<Rightarrow> s | _ \<Rightarrow> ''undefined''),
      urlSearchParams = (\<lambda>ps. concat (map (\<lambda>(k, v). k @ ''='' @ v @ ''&'') ps)),
      typeErrorMessage = (\<lambda>e. ''TypeError at '' @ e),
      mcpErrorMessage = (\<lambda>c m. ''MCP error: '' @ m)\<rparr>"

definition example_config :: APIClientConfig where
  "example_config = \<lparr>baseUrl = ''http://localhost:3000'', token = ''fst_abc''\<rparr>"

definition example_note :: json where
  "example_note = JObj [(''id'', JStr ''n1''), (''type'', JStr ''text'')]"

definition example_collection :: json where
  "example_collection = JObj [(''id'', JStr ''c1''), (''type'', JStr ''collection'')]"

definition example_remote :: remote where
  "example_remote req =
     Inr \<lparr>ok = True, statusText = ''OK'',
          json_of = Inr (JObj [(''pastes'', JArr [example_note, example_collection])])\<rparr>"

section \<open>Properties of the client and the dispatcher\<close>

lemma item_type_Inr: "item_type pf p = Inr t \<Longrightarrow> t = item_type_of p"
  by (cases p) (auto simp: item_type_of_def)

lemma filter_pastes_Inr:
  "filter_pastes pf keep ps = Inr r \<Longrightarrow> r = filter (\<lambda>p. keep (item_type_of p)) ps"
proof (induction ps arbitrary: r)
  case Nil
  then show ?case by simp
next
  case (Cons p ps)
  then show ?case
    by (auto split: sum.splits dest: item_type_Inr)
qed

lemma awaited_Inr:
  "awaited fetch req failure k = Inr v \<Longrightarrow> \<exists>r. fetch req = Inr r \<and> ok r \<and> k r = Inr v"
  by (auto simp: awaited_def split: sum.splits if_splits)

lemma response_json_Inr: "response_json r = Inr j \<Longrightarrow> json_of r = Inr j"
  by (auto simp: response_json_def split: sum.splits)

lemma pastes_array_Inr:
  "pastes_array pf data = Inr ps \<Longrightarrow> \<exists>kvs. data = JObj kvs \<and> get_prop kvs ''pastes'' = Some (JArr ps)"
  by (cases data) (auto split: option.splits json.splits)

lemma filtered_listing:
  assumes "awaited fetch req failure
             (\<lambda>r. case response_json r of Inl e \<Rightarrow> Inl e | Inr data \<Rightarrow>
                (case pastes_array pf data of Inl e \<Rightarrow> Inl e | Inr ps \<Rightarrow>
                   (case filter_pastes pf keep ps of
                      Inl e \<Rightarrow> Inl e
                    | Inr items \<Rightarrow> Inr (JObj [(key, JArr items)])))) = Inr result"
  shows "\<exists>r kvs ps. fetch req = Inr r \<and> ok r \<and> json_of r = Inr (JObj kvs)
           \<and> get_prop kvs ''pastes'' = Some (JArr ps)
           \<and> result = JObj [(key, JArr (filter (\<lambda>p. keep (item_type_of p)) ps))]"
proof -
  from awaited_Inr [OF assms] obtain r where r: "fetch req = Inr r" "ok r"
    and k: "(case response_json r of Inl e \<Rightarrow> Inl e | Inr data \<Rightarrow>
                (case pastes_array pf data of Inl e \<Rightarrow> Inl e | Inr ps \<Rightarrow>
                   (case filter_pastes pf keep ps of
                      Inl e \<Rightarrow> Inl e
                    | Inr items \<Rightarrow> Inr (JObj [(key, JArr items)])))) = Inr result"
    by blast
  from k obtain data where d: "response_json r = Inr data"
    and k2: "(case pastes_array pf data of Inl e \<Rightarrow> Inl e | Inr ps \<Rightarrow>
                   (case filter_pastes pf keep ps of
                      Inl e \<Rightarrow> Inl e
                    | Inr items \<Rightarrow> Inr (JObj [(key, JArr items)]))) = Inr result"
    by (cases "response_json r") auto
  from k2 obtain ps where p: "pastes_array pf data = Inr ps"
    and k3: "(case filter_pastes pf keep ps of
                      Inl e \<Rightarrow> Inl e
                    | Inr items \<Rightarrow> Inr (JObj [(key, JArr items)])) = Inr result"
    by (cases "pastes_array pf data") auto
  from k3 obtain items where f: "filter_pastes pf keep ps = Inr items"
    and res: "result = JObj [(key, JArr items)]"
    by (cases "filter_pastes pf keep ps") auto
  from pastes_array_Inr [OF p] obtain kvs where kv: "data = JObj kvs"
    "get_prop kvs ''pastes'' = Some (JArr ps)" by blast
  show ?thesis
    using r response_json_Inr [OF d] kv filter_pastes_Inr [OF f] res by blast
qed

lemma undefined_args_fail:
  "handleToolCall pf fetch config toolName None \<noteq> (calls, Inr result)"
  by (simp add: handleToolCall_def Let_def)

lemma list_notes_result:
  assumes "handleToolCall pf fetch config ''list_notes'' args = (calls, Inr result)"
  shows "\<exists>req r kvs ps. calls = [req] \<and> fetch req = Inr r \<and> json_of r = Inr (JObj kvs)
           \<and> get_prop kvs ''pastes'' = Some (JArr ps)
           \<and> result = JObj [(''notes'', JArr (filter (\<lambda>p. \<not> has_type_collection p) ps))]"
proof (cases args)
  case None
  with assms show ?thesis by (simp add: undefined_args_fail)
next
  case (Some a)
  with assms have c: "calls = [fetchAPI config (list_path pf (get_prop a ''parentId'')) no_options]"
    and k: "awaited fetch (fetchAPI config (list_path pf (get_prop a ''parentId'')) no_options)
        ''Failed to list notes: ''
        (\<lambda>r. case response_json r of Inl e \<Rightarrow> Inl e | Inr data \<Rightarrow>
                   (case pastes_array pf data of Inl e \<Rightarrow> Inl e | Inr ps \<Rightarrow>
                      (case filter_pastes pf (\<lambda>t. \<not> is_collection t) ps of
                         Inl e \<Rightarrow> Inl e
                       | Inr notes \<Rightarrow> Inr (JObj [(''notes'', JArr notes)])))) = Inr result"
    by (simp_all add: handleToolCall_def Let_def)
  from filtered_listing [OF k] c show ?thesis
    by (auto simp: has_type_collection_def is_collection_def)
qed

lemma search_notes_result:
  assumes "handleToolCall pf fetch config ''search_notes'' args = (calls, Inr result)"
  shows "\<exists>req r kvs ps. calls = [req] \<and> fetch req = Inr r \<and> json_of r = Inr (JObj kvs)
           \<and> get_prop kvs ''pastes'' = Some (JArr ps)
           \<and> result = JObj [(''notes'', JArr (filter (\<lambda>p. \<not> has_type_collection p) ps))]"
proof (cases args)
  case None
  with assms show ?thesis by (simp add: undefined_args_fail)
next
  case (Some a)
  define req where "req = fetchAPI config (''/api/pastes?'' @ urlSearchParams pf
      ([(''q'', toStr pf (get_prop a ''query''))]
        @ (if truthy (get_prop a ''parentId'')
           then [(''parentId'', toStr pf (get_prop a ''parentId''))] else []))) no_options"
  from Some assms have c: "calls = [req]"
    and k: "awaited fetch req ''Failed to search notes: ''
        (\<lambda>r. case response_json r of Inl e \<Rightarrow> Inl e | Inr data \<Rightarrow>
                   (case pastes_array pf data of Inl e \<Rightarrow> Inl e | Inr ps \<Rightarrow>
                      (case filter_pastes pf (\<lambda>t. \<not> is_collection t) ps of
                         Inl e \<Rightarrow> Inl e
                       | Inr notes \<Rightarrow> Inr (JObj [(''notes'', JArr notes)])))) = Inr result"
    by (simp_all add: handleToolCall_def Let_def req_def)
  from filtered_listing [OF k] c show ?thesis
    by (auto simp: has_type_collection_def is_collection_def)
qed

lemma list_collections_result:
  assumes "handleToolCall pf fetch config ''list_collections'' args = (calls, Inr result)"
  shows "\<exists>req r kvs ps. calls = [req] \<and> fetch req = Inr r \<and> json_of r = Inr (JObj kvs)
           \<and> get_prop kvs ''pastes'' = Some (JArr ps)
           \<and> result = JObj [(''collections'', JArr (filter has_type_collection ps))]"
proof (cases args)
  case None
  with assms show ?thesis by (simp add: undefined_args_fail)
next
  case (Some a)
  with assms have c: "calls = [fetchAPI config (list_path pf (get_prop a ''parentId'')) no_options]"
    and k: "awaited fetch (fetchAPI config (list_path pf (get_prop a ''parentId'')) no_options)
        ''Failed to list collections: ''
        (\<lambda>r. case response_json r of Inl e \<Rightarrow> Inl e | Inr data \<Rightarrow>
                   (case pastes_array pf data of Inl e \<Rightarrow> Inl e | Inr ps \<Rightarrow>
                      (case filter_pastes pf is_collection ps of
                         Inl e \<Rightarrow> Inl e
                       | Inr collections \<Rightarrow> Inr (JObj [(''collections'', JArr collections)])))) = Inr result"
    by (simp_all add: handleToolCall_def Let_def)
  have "(\<lambda>p. is_collection (item_type_of p)) = has_type_collection"
    by (rule ext) (simp add: has_type_collection_def is_collection_def)
  with filtered_listing [OF k] c show ?thesis
    by auto
qed

text \<open>
  C1. Whenever \<open>list_notes\<close> or \<open>search_notes\<close> returns, it returns \<open>{ notes }\<close> where the
  notes are the items of the remote response's \<open>pastes\<close> whose type is not
  \<open>"collection"\<close>: every returned item was in the remote response, and none has type
  \<open>"collection"\<close>. Whenever \<open>list_collections\<close> returns, it returns \<open>{ collections }\<close>
  where every item was in the remote response and has type exactly \<open>"collection"\<close>.
\<close>

theorem listings_filter_by_type:
  assumes "handleToolCall pf fetch config toolName args = (calls, Inr result)"
  shows "(toolName = ''list_notes'' \<or> toolName = ''search_notes'' \<longrightarrow>
            (\<exists>req r kvs ps notes. calls = [req] \<and> fetch req = Inr r
               \<and> json_of r = Inr (JObj kvs) \<and> get_prop kvs ''pastes'' = Some (JArr ps)
               \<and> result = JObj [(''notes'', JArr notes)]
               \<and> set notes \<subseteq> set ps \<and> (\<forall>p \<in> set notes. \<not> has_type_collection p)
               \<and> notes = filter (\<lambda>p. \<not> has_type_collection p) ps))
       \<and> (toolName = ''list_collections'' \<longrightarrow>
            (\<exists>req r kvs ps collections. calls = [req] \<and> fetch req = Inr r
               \<and> json_of r = Inr (JObj kvs) \<and> get_prop kvs ''pastes'' = Some (JArr ps)
               \<and> result = JObj [(''collections'', JArr collections)]
               \<and> set collections \<subseteq> set ps \<and> (\<forall>p \<in> set collections. has_type_collection p)
               \<and> collections = filter has_type_collection ps))"
proof (intro conjI impI)
  assume "toolName = ''list_notes'' \<or> toolName = ''search_notes''"
  with assms list_notes_result search_notes_result
  obtain req r kvs ps where "calls = [req]" "fetch req = Inr r" "json_of r = Inr (JObj kvs)"
    "get_prop kvs ''pastes'' = Some (JArr ps)"
    "result = JObj [(''notes'', JArr (filter (\<lambda>p. \<not> has_type_collection p) ps))]"
    by blast
  then show "\<exists>req r kvs ps notes. calls = [req] \<and> fetch req = Inr r
               \<and> json_of r = Inr (JObj kvs) \<and> get_prop kvs ''pastes'' = Some (JArr ps)
               \<and> result = JObj [(''notes'', JArr notes)]
               \<and> set notes \<subseteq> set ps \<and> (\<forall>p \<in> set notes. \<not> has_type_collection p)
               \<and> notes = filter (\<lambda>p. \<not> has_type_collection p) ps"
    by auto
next
  assume "toolName = ''list_collections''"
  with assms list_collections_result
  obtain req r kvs ps where "calls = [req]" "fetch req = Inr r" "json_of r = Inr (JObj kvs)"
    "get_prop kvs ''pastes'' = Some (JArr ps)"
    "result = JObj [(''collections'', JArr (filter has_type_collection ps))]"
    by blast
  then show "\<exists>req r kvs ps collections. calls = [req] \<and> fetch req = Inr r
               \<and> json_of r = Inr (JObj kvs) \<and> get_prop kvs ''pastes'' = Some (JArr ps)
               \<and> result = JObj [(''collections'', JArr collections)]
               \<and> set collections \<subseteq> set ps \<and> (\<forall>p \<in> set collections. has_type_collection p)
               \<and> collections = filter has_type_collection ps"
    by auto
qed

lemma example_list_notes:
  "handleToolCall example_platform example_remote example_config ''list_notes'' (Some []) =
     ([fetchAPI example_config ''/api/pastes'' no_options],
      Inr (JObj [(''notes'', JArr [example_note])]))"
  by (simp add: handleToolCall_def Let_def list_path_def get_prop_def example_platform_def
      awaited_def example_remote_def response_json_def is_collection_def
      example_note_def example_collection_def)

theorem listings_filter_by_type_witness:
  "handleToolCall example_platform example_remote example_config ''list_notes'' (Some []) =
     ([fetchAPI example_config ''/api/pastes'' no_options],
      Inr (JObj [(''notes'', JArr [example_note])]))
   \<and> \<not> has_type_collection example_note \<and> has_type_collection example_collection
   \<and> (\<exists>ps. set [example_note] \<subseteq> set ps
         \<and> [example_note] = filter (\<lambda>p. \<not> has_type_collection p) ps)"
proof -
  note h = example_list_notes
  from listings_filter_by_type [OF h] show ?thesis
    using h by (auto simp: has_type_collection_def item_type_of_def get_prop_def
        example_note_def example_collection_def)
qed

lemma fetchAPI_plain:
  "fetchAPI config path \<lparr>init_method = m, init_body = b, init_headers = None\<rparr> =
     \<lparr>url = baseUrl config @ path, req_method = m, req_body = b,
      req_headers = (if body_truthy b \<and> body_is_string b
                     then [''Authorization'' \<mapsto> ''Bearer '' @ token config,
                           ''Content-Type'' \<mapsto> ''application/json'']
                     else [''Authorization'' \<mapsto> ''Bearer '' @ token config])\<rparr>"
  by (simp add: fetchAPI_def Let_def)

lemma truthy_not_empty_string: "truthy (Some v) \<Longrightarrow> v \<noteq> JStr []"
  by auto

lemma move_note_calls:
  "fst (handleToolCall pf fetch config ''move_note'' (Some a)) =
     [fetchAPI config (''/api/pastes/'' @ toStr pf (get_prop a ''id'') @ ''/move'')
        \<lparr>init_method = Some ''POST'',
         init_body = Some (JsonText (JSON_stringify
           [(''targetParentId'', js_or (get_prop a ''targetParentId'') (Some JNull))])),
         init_headers = None\<rparr>]"
  by (simp add: handleToolCall_def Let_def)

text \<open>
  C2. A \<open>move_note\<close> dispatch whose \<open>targetParentId\<close> is omitted or \<open>null\<close> makes one
  remote call, a POST to the item's move path, whose body is the object with the single
  key \<open>targetParentId\<close> and the explicit value \<open>null\<close>: the key is not absent.
\<close>

theorem move_note_root_sends_null:
  assumes "get_prop a ''targetParentId'' = None \<or> get_prop a ''targetParentId'' = Some JNull"
  shows "\<exists>req. fst (handleToolCall pf fetch config ''move_note'' (Some a)) = [req]
           \<and> url req = baseUrl config @ ''/api/pastes/'' @ toStr pf (get_prop a ''id'') @ ''/move''
           \<and> req_method req = Some ''POST''
           \<and> req_body req = Some (JsonText (JObj [(''targetParentId'', JNull)]))"
  using assms
  by (auto simp: move_note_calls fetchAPI_plain js_or_def JSON_stringify_def map_filter_simps)

theorem move_note_root_sends_null_witness:
  "get_prop [(''id'', JStr ''n1'')] ''targetParentId'' = None
   \<and> get_prop [(''id'', JStr ''n1''), (''targetParentId'', JNull)] ''targetParentId'' = Some JNull
   \<and> (\<exists>req. fst (handleToolCall example_platform example_remote example_config ''move_note''
                 (Some [(''id'', JStr ''n1'')])) = [req]
          \<and> url req = ''http://localhost:3000/api/pastes/n1/move''
          \<and> req_body req = Some (JsonText (JObj [(''targetParentId'', JNull)])))
   \<and> (\<exists>req. fst (handleToolCall example_platform example_remote example_config ''move_note''
                 (Some [(''id'', JStr ''n1''), (''targetParentId'', JNull)])) = [req]
          \<and> req_body req = Some (JsonText (JObj [(''targetParentId'', JNull)])))"
proof -
  have h1: "get_prop [(''id'', JStr ''n1'')] ''targetParentId'' = None
            \<or> get_prop [(''id'', JStr ''n1'')] ''targetParentId'' = Some JNull"
    by (simp add: get_prop_def)
  have h2: "get_prop [(''id'', JStr ''n1''), (''targetParentId'', JNull)] ''targetParentId'' = None
            \<or> get_prop [(''id'', JStr ''n1''), (''targetParentId'', JNull)] ''targetParentId''
                = Some JNull"
    by (simp add: get_prop_def)
  show ?thesis
    using move_note_root_sends_null [OF h1, of example_platform example_remote example_config]
      move_note_root_sends_null [OF h2, of example_platform example_remote example_config]
    by (auto simp: get_prop_def example_platform_def example_config_def)
qed

text \<open>
  C10. A \<open>move_note\<close> dispatch whose \<open>targetParentId\<close> is the empty string, or any
  other falsy value, sends \<open>targetParentId = null\<close>; whatever the arguments, the value
  sent is never the empty string.
\<close>

theorem move_note_falsy_target_is_null:
  "(get_prop a ''targetParentId'' = Some (JStr [])
       \<or> \<not> truthy (get_prop a ''targetParentId'') \<longrightarrow>
      (\<exists>req. fst (handleToolCall pf fetch config ''move_note'' (Some a)) = [req]
         \<and> req_body req = Some (JsonText (JObj [(''targetParentId'', JNull)]))))
   \<and> (\<exists>req v. fst (handleToolCall pf fetch config ''move_note'' (Some a)) = [req]
         \<and> req_body req = Some (JsonText (JObj [(''targetParentId'', v)]))
         \<and> v \<noteq> JStr [])"
proof (cases "truthy (get_prop a ''targetParentId'')")
  case True
  then obtain v where v: "get_prop a ''targetParentId'' = Some v" "v \<noteq> JStr []"
    by (cases "get_prop a ''targetParentId''") (auto dest: truthy_not_empty_string)
  with True show ?thesis
    by (auto simp: move_note_calls fetchAPI_plain js_or_def JSON_stringify_def map_filter_simps)
next
  case False
  then show ?thesis
    by (auto simp: move_note_calls fetchAPI_plain js_or_def JSON_stringify_def map_filter_simps)
qed

theorem move_note_falsy_target_is_null_witness:
  "get_prop [(''id'', JStr ''n1''), (''targetParentId'', JStr [])] ''targetParentId''
     = Some (JStr [])
   \<and> (\<exists>req. fst (handleToolCall example_platform example_remote example_config ''move_note''
                 (Some [(''id'', JStr ''n1''), (''targetParentId'', JStr [])])) = [req]
          \<and> req_body req = Some (JsonText (JObj [(''targetParentId'', JNull)])))
   \<and> \<not> truthy (get_prop [(''id'', JStr ''n1''), (''targetParentId'', JNum 0)] ''targetParentId'')
   \<and> (\<exists>req. fst (handleToolCall example_platform example_remote example_config ''move_note''
                 (Some [(''id'', JStr ''n1''), (''targetParentId'', JNum 0)])) = [req]
          \<and> req_body req = Some (JsonText (JObj [(''targetParentId'', JNull)])))"
  using move_note_falsy_target_is_null
          [of "[(''id'', JStr ''n1''), (''targetParentId'', JStr [])]"
              example_platform example_remote example_config]
        move_note_falsy_target_is_null
          [of "[(''id'', JStr ''n1''), (''targetParentId'', JNum 0)]"
              example_platform example_remote example_config]
  by (auto simp: get_prop_def)

lemma create_collection_calls:
  "fst (handleToolCall pf fetch config ''create_collection'' (Some a)) =
     [fetchAPI config ''/api/pastes''
        \<lparr>init_method = Some ''POST'',
         init_body = Some (JsonText (JSON_stringify
           [(''type'', Some (JStr ''collection'')),
            (''title'', get_prop a ''title''),
            (''parentId'', get_prop a ''parentId''),
            (''fieldDefinitions'', get_prop a ''fieldDefinitions''),
            (''displayFields'',
               js_or (get_prop a ''displayFields'')
                 (Some (JArr [JStr ''title'', JStr ''type'', JStr ''createdAt'']))),
            (''viewMode'', Some (JStr ''grid'')),
            (''sortField'', Some (JStr ''createdAt'')),
            (''sortDirection'', Some (JStr ''desc''))])),
         init_headers = None\<rparr>]"
  by (simp add: handleToolCall_def Let_def)

lemma stringify_absent:
  "k \<notin> fst ` set props
     \<Longrightarrow> map_of (List.map_filter (\<lambda>(k, v). map_option (Pair k) v) props) k = None"
  by (induction props) (auto simp: map_filter_simps split: option.splits)

lemma stringify_map_of:
  "distinct (map fst props) \<Longrightarrow> (k, v) \<in> set props
     \<Longrightarrow> map_of (List.map_filter (\<lambda>(k, v). map_option (Pair k) v) props) k = v"
proof (induction props)
  case Nil
  then show ?case by simp
next
  case (Cons p props)
  obtain k' v' where p: "p = (k', v')" by (cases p)
  show ?case
  proof (cases "k = k'")
    case True
    with Cons.prems p have "v = v'" "k' \<notin> fst ` set props" by (auto simp: image_iff)
    with True p stringify_absent [of k' props] show ?thesis
      by (cases v') (simp_all add: map_filter_simps)
  next
    case False
    with Cons.prems p have "(k, v) \<in> set props" "distinct (map fst props)" by auto
    from Cons.IH [OF this(2) this(1)] False p show ?thesis
      by (cases v') (simp_all add: map_filter_simps)
  qed
qed

lemma stringify_prop:
  "distinct (map fst props) \<Longrightarrow> (k, v) \<in> set props
     \<Longrightarrow> JSON_stringify props = JObj kvs \<Longrightarrow> get_prop kvs k = v"
  using stringify_map_of [of props k v] by (auto simp: JSON_stringify_def get_prop_def)

text \<open>
  C4. Every \<open>create_collection\<close> dispatch makes one remote call, a POST whose body
  carries \<open>viewMode = "grid"\<close>, \<open>sortField = "createdAt"\<close> and
  \<open>sortDirection = "desc"\<close> (whatever the arguments hold, so in particular when they do
  not supply them), carries \<open>displayFields = ["title", "type", "createdAt"]\<close> when the
  arguments do not supply \<open>displayFields\<close>, and carries a supplied array of display
  fields, the empty one included, as given.
\<close>

theorem create_collection_defaults:
  "\<exists>req kvs. fst (handleToolCall pf fetch config ''create_collection'' (Some a)) = [req]
     \<and> req_method req = Some ''POST''
     \<and> req_body req = Some (JsonText (JObj kvs))
     \<and> (get_prop a ''displayFields'' = None \<longrightarrow>
          get_prop kvs ''displayFields''
            = Some (JArr [JStr ''title'', JStr ''type'', JStr ''createdAt'']))
     \<and> get_prop kvs ''viewMode'' = Some (JStr ''grid'')
     \<and> get_prop kvs ''sortField'' = Some (JStr ''createdAt'')
     \<and> get_prop kvs ''sortDirection'' = Some (JStr ''desc'')
     \<and> (\<forall>fields. get_prop a ''displayFields'' = Some (JArr fields) \<longrightarrow>
          get_prop kvs ''displayFields'' = Some (JArr fields))"
proof -
  define props where "props =
           [(''type'', Some (JStr ''collection'')),
            (''title'', get_prop a ''title''),
            (''parentId'', get_prop a ''parentId''),
            (''fieldDefinitions'', get_prop a ''fieldDefinitions''),
            (''displayFields'',
               js_or (get_prop a ''displayFields'')
                 (Some (JArr [JStr ''title'', JStr ''type'', JStr ''createdAt'']))),
            (''viewMode'', Some (JStr ''grid'')),
            (''sortField'', Some (JStr ''createdAt'')),
            (''sortDirection'', Some (JStr ''desc''))]"
  obtain kvs where kvs: "JSON_stringify props = JObj kvs"
    by (simp add: JSON_stringify_def)
  have d: "distinct (map fst props)" by (simp add: props_def)
  have "get_prop kvs ''viewMode'' = Some (JStr ''grid'')"
    by (rule stringify_prop [OF d _ kvs]) (simp add: props_def)
  moreover have "get_prop kvs ''sortField'' = Some (JStr ''createdAt'')"
    by (rule stringify_prop [OF d _ kvs]) (simp add: props_def)
  moreover have "get_prop kvs ''sortDirection'' = Some (JStr ''desc'')"
    by (rule stringify_prop [OF d _ kvs]) (simp add: props_def)
  moreover have df: "get_prop kvs ''displayFields'' =
      js_or (get_prop a ''displayFields'')
        (Some (JArr [JStr ''title'', JStr ''type'', JStr ''createdAt'']))"
    by (rule stringify_prop [OF d _ kvs]) (simp add: props_def)
  moreover have "get_prop a ''displayFields'' = None \<longrightarrow>
      get_prop kvs ''displayFields''
        = Some (JArr [JStr ''title'', JStr ''type'', JStr ''createdAt''])"
    using df by (simp add: js_or_def)
  moreover have "\<forall>fields. get_prop a ''displayFields'' = Some (JArr fields) \<longrightarrow>
      get_prop kvs ''displayFields'' = Some (JArr fields)"
    using df by (simp add: js_or_def)
  ultimately show ?thesis
    using kvs by (simp add: create_collection_calls fetchAPI_plain props_def)
qed

theorem create_collection_defaults_witness:
  "get_prop [(''title'', JStr ''Groceries'')] ''displayFields'' = None
   \<and> get_prop [(''title'', JStr ''Groceries''), (''displayFields'', JArr [JStr ''title''])]
        ''displayFields'' = Some (JArr [JStr ''title''])
   \<and> get_prop [(''title'', JStr ''Groceries''), (''displayFields'', JArr [])]
        ''displayFields'' = Some (JArr [])
   \<and> (\<exists>req kvs. fst (handleToolCall example_platform example_remote example_config
                      ''create_collection'' (Some [(''title'', JStr ''Groceries'')])) = [req]
         \<and> req_body req = Some (JsonText (JObj kvs))
         \<and> get_prop kvs ''displayFields''
             = Some (JArr [JStr ''title'', JStr ''type'', JStr ''createdAt''])
         \<and> get_prop kvs ''viewMode'' = Some (JStr ''grid''))
   \<and> (\<exists>req kvs. fst (handleToolCall example_platform example_remote example_config
                      ''create_collection''
                      (Some [(''title'', JStr ''Groceries''),
                             (''displayFields'', JArr [JStr ''title''])])) = [req]
         \<and> req_body req = Some (JsonText (JObj kvs))
         \<and> get_prop kvs ''displayFields'' = Some (JArr [JStr ''title'']))
   \<and> (\<exists>req kvs. fst (handleToolCall example_platform example_remote example_config
                      ''create_collection''
                      (Some [(''title'', JStr ''Groceries''),
                             (''displayFields'', JArr [])])) = [req]
         \<and> req_body req = Some (JsonText (JObj kvs))
         \<and> get_prop kvs ''displayFields'' = Some (JArr []))"
  using create_collection_defaults
          [of example_platform example_remote example_config "[(''title'', JStr ''Groceries'')]"]
        create_collection_defaults
          [of example_platform example_remote example_config
              "[(''title'', JStr ''Groceries''), (''displayFields'', JArr [JStr ''title''])]"]
        create_collection_defaults
          [of example_platform example_remote example_config
              "[(''title'', JStr ''Groceries''), (''displayFields'', JArr [])]"]
  by (auto simp: get_prop_def)

lemma map_of_rest_without:
  "map_of (rest_without k obj) x = (if x = k then None else map_of obj x)"
  by (induction obj) (auto simp: rest_without_def)

lemma update_note_calls:
  "fst (handleToolCall pf fetch config ''update_note'' (Some a)) =
     [fetchAPI config (''/api/pastes/'' @ toStr pf (get_prop a ''id''))
        \<lparr>init_method = Some ''PUT'',
         init_body = Some (JsonText (JObj (rest_without ''id'' a))),
         init_headers = None\<rparr>]"
  by (simp add: handleToolCall_def Let_def)

text \<open>
  C9. Every \<open>update_note\<close> dispatch makes one remote call, a PUT to
  \<open>/api/pastes/<id>\<close>, whose body is an object holding exactly the properties of the
  argument object other than \<open>id\<close>, each with the value supplied: a property that was
  not supplied is not in the body, and \<open>id\<close> is in the path only.
\<close>

theorem update_note_sends_supplied_fields:
  "\<exists>req kvs. fst (handleToolCall pf fetch config ''update_note'' (Some a)) = [req]
     \<and> req_method req = Some ''PUT''
     \<and> url req = baseUrl config @ ''/api/pastes/'' @ toStr pf (get_prop a ''id'')
     \<and> req_body req = Some (JsonText (JObj kvs))
     \<and> (\<forall>k. get_prop kvs k = (if k = ''id'' then None else get_prop a k))
     \<and> set kvs = {(k, v) \<in> set a. k \<noteq> ''id''}"
proof -
  have "\<forall>k. get_prop (rest_without ''id'' a) k = (if k = ''id'' then None else get_prop a k)"
    by (simp add: get_prop_def map_of_rest_without)
  moreover have "set (rest_without ''id'' a) = {(k, v) \<in> set a. k \<noteq> ''id''}"
    by (auto simp: rest_without_def)
  ultimately show ?thesis
    by (simp add: update_note_calls fetchAPI_plain)
qed

theorem update_note_sends_supplied_fields_witness:
  "\<exists>req. fst (handleToolCall example_platform example_remote example_config ''update_note''
               (Some [(''id'', JStr ''n1''), (''title'', JStr ''New'')])) = [req]
     \<and> url req = ''http://localhost:3000/api/pastes/n1''
     \<and> req_body req = Some (JsonText (JObj [(''title'', JStr ''New'')]))"
proof -
  from update_note_sends_supplied_fields
         [of example_platform example_remote example_config
             "[(''id'', JStr ''n1''), (''title'', JStr ''New'')]"]
  obtain req kvs where
    r: "fst (handleToolCall example_platform example_remote example_config ''update_note''
               (Some [(''id'', JStr ''n1''), (''title'', JStr ''New'')])) = [req]"
       "url req = baseUrl example_config @ ''/api/pastes/''
                    @ toStr example_platform
                        (get_prop [(''id'', JStr ''n1''), (''title'', JStr ''New'')] ''id'')"
       "req_body req = Some (JsonText (JObj kvs))"
    by blast
  have "kvs = [(''title'', JStr ''New'')]"
    using r(1,3) by (auto simp: update_note_calls fetchAPI_plain rest_without_def)
  with r show ?thesis
    by (simp add: example_config_def example_platform_def get_prop_def)
qed

lemma fetchAPI_headers:
  assumes "r = fetchAPI config path \<lparr>init_method = m, init_body = b, init_headers = None\<rparr>"
  shows "req_headers r ''Authorization'' = Some (''Bearer '' @ token config)"
    and "req_headers r ''Content-Type'' = Some ''application/json''
           \<longleftrightarrow> body_truthy b \<and> body_is_string b"
    and "req_headers r ''Content-Type'' = None \<longleftrightarrow> \<not> (body_truthy b \<and> body_is_string b)"
    and "req_body r = b"
  using assms by (simp_all add: fetchAPI_plain)

lemma dispatch_calls:
  assumes "r \<in> set (fst (handleToolCall pf fetch config toolName args))"
  shows "\<exists>path m b. r = fetchAPI config path \<lparr>init_method = m, init_body = b, init_headers = None\<rparr>
           \<and> (b = None \<or> (\<exists>j. b = Some (JsonText j)))"
  using assms
  unfolding handleToolCall_def Let_def no_options_def
  by (auto split: if_splits option.splits sum.splits)

text \<open>
  C8. Every request the dispatcher issues through \<open>fetchAPI\<close>, for any tool, arguments
  and remote service, carries \<open>Authorization: Bearer <token>\<close> for the token of the
  configuration it was called with, and carries \<open>Content-Type: application/json\<close> if
  and only if it has a string body; without one it carries no \<open>Content-Type\<close> at all.
\<close>

theorem remote_calls_carry_bearer_and_json_type:
  assumes "r \<in> set (fst (handleToolCall pf fetch config toolName args))"
  shows "req_headers r ''Authorization'' = Some (''Bearer '' @ token config)
       \<and> (req_headers r ''Content-Type'' = Some ''application/json''
            \<longleftrightarrow> body_is_string (req_body r))
       \<and> (\<not> body_is_string (req_body r) \<longrightarrow> req_headers r ''Content-Type'' = None)"
proof -
  from dispatch_calls [OF assms] obtain path m b
    where r: "r = fetchAPI config path \<lparr>init_method = m, init_body = b, init_headers = None\<rparr>"
      and b: "b = None \<or> (\<exists>j. b = Some (JsonText j))"
    by blast
  from b have "body_truthy b = body_is_string b" by auto
  with fetchAPI_headers [OF r] show ?thesis by simp
qed

theorem remote_calls_carry_bearer_and_json_type_witness:
  "(\<exists>r. fst (handleToolCall example_platform example_remote example_config
                ''update_note'' (Some [(''id'', JStr ''n1''), (''title'', JStr ''New'')])) = [r]
      \<and> req_headers r ''Authorization'' = Some ''Bearer fst_abc''
      \<and> req_headers r ''Content-Type'' = Some ''application/json''
      \<and> req_body r = Some (JsonText (JObj [(''title'', JStr ''New'')])))
   \<and> (\<exists>r. fst (handleToolCall example_platform example_remote example_config
                ''get_note'' (Some [(''id'', JStr ''n1'')])) = [r]
      \<and> req_headers r ''Authorization'' = Some ''Bearer fst_abc''
      \<and> req_headers r ''Content-Type'' = None \<and> req_body r = None)"
proof -
  have u: "fst (handleToolCall example_platform example_remote example_config
                  ''update_note'' (Some [(''id'', JStr ''n1''), (''title'', JStr ''New'')]))
           = [fetchAPI example_config ''/api/pastes/n1''
                \<lparr>init_method = Some ''PUT'',
                 init_body = Some (JsonText (JObj [(''title'', JStr ''New'')])),
                 init_headers = None\<rparr>]"
    by (simp add: handleToolCall_def Let_def rest_without_def get_prop_def example_platform_def)
  have g: "fst (handleToolCall example_platform example_remote example_config
                  ''get_note'' (Some [(''id'', JStr ''n1'')]))
           = [fetchAPI example_config ''/api/pastes/n1'' no_options]"
    by (simp add: handleToolCall_def Let_def get_prop_def example_platform_def)
  have mu: "fetchAPI example_config ''/api/pastes/n1''
                \<lparr>init_method = Some ''PUT'',
                 init_body = Some (JsonText (JObj [(''title'', JStr ''New'')])),
                 init_headers = None\<rparr>
             \<in> set (fst (handleToolCall example_platform example_remote example_config
                  ''update_note'' (Some [(''id'', JStr ''n1''), (''title'', JStr ''New'')])))"
    by (simp add: u)
  have mg: "fetchAPI example_config ''/api/pastes/n1'' no_options
             \<in> set (fst (handleToolCall example_platform example_remote example_config
                  ''get_note'' (Some [(''id'', JStr ''n1'')])))"
    by (simp add: g)
  from remote_calls_carry_bearer_and_json_type [OF mu]
       remote_calls_carry_bearer_and_json_type [OF mg]
  show ?thesis
    unfolding u g
    by (simp add: fetchAPI_plain no_options_def example_config_def)
qed

lemma unknown_tool_dispatch:
  "toolName \<notin> set TOOLS \<Longrightarrow>
     handleToolCall pf fetch config toolName args
       = ([], Inl (McpError MethodNotFound (''Unknown tool: '' @ toolName)))"
  by (simp add: handleToolCall_def TOOLS_def Let_def)

lemma unknown_tool_handler:
  "toolName \<notin> set TOOLS \<Longrightarrow>
     callToolHandler pf fetch config \<lparr>name = toolName, arguments = args\<rparr>
       = ([], Inl (McpError InternalError
                     (mcpErrorMessage pf MethodNotFound (''Unknown tool: '' @ toolName))))"
  by (simp add: callToolHandler_def unknown_tool_dispatch message_def)

text \<open>
  C3. The tool name \<open>archive_note\<close> is not in the catalog. The dispatcher fails on it
  with an \<open>McpError\<close> of code \<open>MethodNotFound\<close> and makes no remote call, but the
  handler registered with the protocol engine catches that error and throws an
  \<open>McpError\<close> of code \<open>InternalError\<close> in its place: the protocol caller observes
  an internal error, whose message alone still holds the text of the original.
\<close>

theorem unknown_tool_reported_as_internal_error:
  "''archive_note'' \<notin> set TOOLS
   \<and> handleToolCall example_platform example_remote example_config ''archive_note'' (Some [])
       = ([], Inl (McpError MethodNotFound ''Unknown tool: archive_note''))
   \<and> callToolHandler example_platform example_remote example_config
        \<lparr>name = ''archive_note'', arguments = Some []\<rparr>
       = ([], Inl (McpError InternalError ''MCP error: Unknown tool: archive_note''))
   \<and> InternalError \<noteq> MethodNotFound"
proof -
  have n: "''archive_note'' \<notin> set TOOLS" by (simp add: TOOLS_def)
  from unknown_tool_dispatch [OF n] unknown_tool_handler [OF n] n show ?thesis
    by (simp add: example_platform_def)
qed

section \<open>Properties of the session and transport manager\<close>

lemma string_token_rejected:
  assumes "query_token req = None \<or> query_token req = Some (QString [])
             \<or> (\<exists>tok. query_token req = Some (QString tok) \<and> \<not> startsWith tok ''fst_'')"
  shows "post_sse u st req env
           = (st, [Respond 401 (JObj [(''error'', JStr ''Valid token required as query parameter'')])])
       \<and> get_sse u st req env
           = (st, [Respond 401 (JObj [(''error'', JStr ''Valid token required as query parameter'')])])"
  using assms by (auto simp: post_sse_def get_sse_def unauthorized_def)

lemma non_string_token_throws:
  assumes "query_token req = Some (QArray vs) \<or> query_token req = Some (QObject kvs)"
  shows "post_sse u st req env = (st, [Throw ''token.startsWith''])
       \<and> get_sse u st req env = (st, [Throw ''token.startsWith''])"
  using assms by (auto simp: post_sse_def get_sse_def)

text \<open>
  C5. A request to \<open>POST /sse\<close> or \<open>GET /sse\<close> with \<open>?token=abc&token=def\<close> has a
  token parameter that does not start with \<open>fst_\<close>: it is the array of the two strings.
  The handler does not answer it with status 401 and the body
  \<open>{error: "Valid token required as query parameter"}\<close>: the array passes the test
  \<open>!token\<close>, and the call \<open>token.startsWith\<close> raises a \<open>TypeError\<close> that ends the
  handler without a response of its own. The tables and the allocation counter are
  unchanged, and no transport or engine is created. A token that is missing, empty or a
  string without the prefix does get the 401 (\<open>string_token_rejected\<close>).
\<close>

theorem repeated_token_not_answered_401:
  "post_sse ''http://localhost:3000'' initial
     \<lparr>query_token = Some (QArray [QString ''abc'', QString ''def'']), mcp_session_id = None\<rparr>
     (example_env 5 ''s1'')
     = (initial, [Throw ''token.startsWith''])
   \<and> get_sse ''http://localhost:3000'' initial
     \<lparr>query_token = Some (QArray [QString ''abc'', QString ''def'']), mcp_session_id = None\<rparr>
     (example_env 5 ''s1'')
     = (initial, [Throw ''token.startsWith''])
   \<and> Throw ''token.startsWith''
       \<noteq> Respond 401 (JObj [(''error'', JStr ''Valid token required as query parameter'')])"
  by (simp add: post_sse_def get_sse_def)

lemma Map_has_iff: "Map_has m k \<longleftrightarrow> k \<in> fst ` set m"
  by (simp add: Map_has_def map_of_eq_None_iff)

lemma Map_set_fresh: "k \<notin> fst ` set m \<Longrightarrow> Map_set m k v = m @ [(k, v)]"
  by (induction m) auto

lemma Map_delete_keys: "fst ` set (Map_delete m k) = fst ` set m - {k}"
  by (auto simp: Map_delete_def image_iff)

lemma Map_delete_distinct: "distinct (map fst m) \<Longrightarrow> distinct (map fst (Map_delete m k))"
  by (simp add: Map_delete_def distinct_map_filter)

lemma Map_delete_subset: "set (Map_delete m k) \<subseteq> set m"
  by (auto simp: Map_delete_def)

lemma existing_session_stored:
  assumes "streamable_inv st" "(sid, e) \<in> set (streamableTransports st)"
  shows "existing_session st (Some sid) = Some e"
proof -
  from assms have "sid \<noteq> []" "distinct (map fst (streamableTransports st))"
    by (auto simp: streamable_inv_def image_iff)
  moreover from assms(2) have "sid \<in> fst ` set (streamableTransports st)"
    by force
  ultimately show ?thesis
    using assms(2) by (simp add: existing_session_def Map_has_iff)
qed

lemma existing_session_unknown:
  "sid = None \<or> (\<exists>s. sid = Some s \<and> s \<notin> fst ` set (streamableTransports st))
     \<Longrightarrow> existing_session st sid = None"
  by (auto simp: existing_session_def Map_has_iff)

lemma streamable_inv_post_sse: "streamable_inv st \<Longrightarrow> streamable_inv (fst (post_sse u st req env))"
  by (auto simp: post_sse_def streamable_inv_def Let_def Map_has_iff Map_set_fresh
      less_Suc_eq image_iff
      split: option.splits prod.splits query_value.splits dest: less_SucI)

lemma streamable_inv_get_sse: "streamable_inv st \<Longrightarrow> streamable_inv (fst (get_sse u st req env))"
  by (auto simp: get_sse_def streamable_inv_def Let_def
      split: option.splits query_value.splits dest: less_SucI)

lemma streamable_inv_close: "streamable_inv st \<Longrightarrow> streamable_inv (streamable_close st t)"
  using Map_delete_subset [of "streamableTransports st"]
  by (auto simp: streamable_close_def streamable_inv_def Map_delete_distinct Map_delete_keys
      split: option.splits)

lemma streamable_inv_step: "streamable_inv st \<Longrightarrow> streamable_inv (fst (step u st e))"
proof (cases e)
  case (PostSse req env)
  assume "streamable_inv st"
  with PostSse show ?thesis by (simp add: streamable_inv_post_sse)
next
  case (GetSse req env)
  assume "streamable_inv st"
  with GetSse show ?thesis by (simp add: streamable_inv_get_sse)
next
  case (PostMessage env)
  assume "streamable_inv st"
  with PostMessage show ?thesis by (simp add: post_message_def split: list.splits prod.splits)
next
  case (SseClose t)
  assume "streamable_inv st"
  with SseClose show ?thesis
    by (auto simp: sse_close_def streamable_inv_def split: option.splits)
next
  case (StreamableClose t)
  assume "streamable_inv st"
  with StreamableClose show ?thesis by (simp add: streamable_inv_close)
qed

lemma streamable_inv_run: "streamable_inv st \<Longrightarrow> streamable_inv (run u st evs)"
  by (induction evs arbitrary: st) (simp_all add: streamable_inv_step)

lemma streamable_inv_initial: "streamable_inv initial"
  by (simp add: streamable_inv_def initial_def)


text \<open>
  C6. In every state the server can reach, no session identifier of the streaming table
  is bound twice. A \<open>POST /sse\<close> with a valid token whose session identifier is in the
  table is handed to the transport stored under it, and nothing else happens: no
  transport or engine is created and the state is unchanged. One whose session
  identifier is absent or not in the table creates a new transport and a new engine
  bound to the request's token, connects them and hands the request to the new
  transport, never to a stored one; the table then is unchanged or holds the new
  transport under an identifier that was not bound before.
\<close>

theorem streamable_session_bound_once:
  assumes "st = run u initial evs"
    and "query_token req = Some (QString tok)" and "tok \<noteq> []" and "startsWith tok ''fst_''"
  shows "distinct (map fst (streamableTransports st))
       \<and> (\<forall>sid t stored.
            mcp_session_id req = Some sid \<and> (sid, (t, stored)) \<in> set (streamableTransports st)
            \<longrightarrow> post_sse u st req env
                  = (st, HandleRequest t
                         # (if handle_throws env \<and> \<not> headersSent env
                            then [Respond 500 (JObj [(''error'', JStr ''Failed to handle request'')])]
                            else [])))
       \<and> (mcp_session_id req = None
            \<or> (\<exists>sid. mcp_session_id req = Some sid
                      \<and> sid \<notin> fst ` set (streamableTransports st))
            \<longrightarrow> (\<exists>st' rest.
                   post_sse u st req env
                     = (st', [NewStreamableTransport (next_ref st),
                              CreateMCPServer (Suc (next_ref st)) u tok,
                              Connect (Suc (next_ref st)) (next_ref st)] @ rest)
                   \<and> next_ref st \<notin> (\<lambda>e. fst (snd e)) ` set (streamableTransports st)
                   \<and> (\<forall>t. HandleRequest t \<in> set rest \<longrightarrow> t = next_ref st)
                   \<and> (streamableTransports st' = streamableTransports st
                        \<or> (\<exists>newSessionId.
                              newSessionId \<notin> fst ` set (streamableTransports st)
                              \<and> streamableTransports st'
                                  = streamableTransports st
                                      @ [(newSessionId, (next_ref st, tok))]))))"
proof (intro conjI allI impI)
  from assms(1) have inv: "streamable_inv st"
    by (simp add: streamable_inv_run streamable_inv_initial)
  then show "distinct (map fst (streamableTransports st))"
    by (simp add: streamable_inv_def)
  {
    fix sid t stored
    assume "mcp_session_id req = Some sid \<and> (sid, (t, stored)) \<in> set (streamableTransports st)"
    with existing_session_stored [OF inv] have "existing_session st (mcp_session_id req) = Some (t, stored)"
      by simp
    with assms(2-4)
    show "post_sse u st req env
            = (st, HandleRequest t
                   # (if handle_throws env \<and> \<not> headersSent env
                      then [Respond 500 (JObj [(''error'', JStr ''Failed to handle request'')])]
                      else []))"
      by (simp add: post_sse_def failed_request_def)
  }
  assume "mcp_session_id req = None
            \<or> (\<exists>sid. mcp_session_id req = Some sid
                      \<and> sid \<notin> fst ` set (streamableTransports st))"
  then have none: "existing_session st (mcp_session_id req) = None"
    by (rule existing_session_unknown)
  have fresh: "next_ref st \<notin> (\<lambda>e. fst (snd e)) ` set (streamableTransports st)"
    using inv by (auto simp: streamable_inv_def)
  show "\<exists>st' rest.
          post_sse u st req env
            = (st', [NewStreamableTransport (next_ref st),
                     CreateMCPServer (Suc (next_ref st)) u tok,
                     Connect (Suc (next_ref st)) (next_ref st)] @ rest)
          \<and> next_ref st \<notin> (\<lambda>e. fst (snd e)) ` set (streamableTransports st)
          \<and> (\<forall>t. HandleRequest t \<in> set rest \<longrightarrow> t = next_ref st)
          \<and> (streamableTransports st' = streamableTransports st
               \<or> (\<exists>newSessionId.
                     newSessionId \<notin> fst ` set (streamableTransports st)
                     \<and> streamableTransports st'
                         = streamableTransports st @ [(newSessionId, (next_ref st, tok))]))"
    using assms(2-4) none fresh
    by (auto simp: post_sse_def Let_def failed_request_def Map_has_iff Map_set_fresh
        split: option.splits)
qed

lemma example_streamable_run:
  "run ''http://localhost:3000'' initial [PostSse (example_request None) (example_env 1 ''s1'')]
     = \<lparr>sseTransports = [], streamableTransports = [(''s1'', (0, ''fst_abc''))],
        sseOnClose = [], streamableOnClose = [(0, ''s1'')], next_ref = 2\<rparr>"
  by (simp add: post_sse_def initial_def example_request_def example_env_def startsWith_def
      existing_session_def Map_has_def Let_def)

theorem streamable_session_bound_once_witness:
  "startsWith ''fst_abc'' ''fst_''
   \<and> post_sse ''http://localhost:3000''
        (run ''http://localhost:3000'' initial
           [PostSse (example_request None) (example_env 1 ''s1'')])
        (example_request (Some ''s1'')) (example_env 2 ''s2'')
       = (run ''http://localhost:3000'' initial
            [PostSse (example_request None) (example_env 1 ''s1'')],
          [HandleRequest 0])
   \<and> (\<exists>st' rest.
         post_sse ''http://localhost:3000''
           (run ''http://localhost:3000'' initial
              [PostSse (example_request None) (example_env 1 ''s1'')])
           (example_request (Some ''zz'')) (example_env 2 ''s2'')
          = (st', [NewStreamableTransport 2,
                   CreateMCPServer 3 ''http://localhost:3000'' ''fst_abc'',
                   Connect 3 2] @ rest))"
proof -
  let ?st = "run ''http://localhost:3000'' initial
               [PostSse (example_request None) (example_env 1 ''s1'')]"
  have p: "startsWith ''fst_abc'' ''fst_''" by (simp add: startsWith_def)
  have ne: "''fst_abc'' \<noteq> []" by simp
  have q1: "query_token (example_request (Some ''s1'')) = Some (QString ''fst_abc'')"
    and q2: "query_token (example_request (Some ''zz'')) = Some (QString ''fst_abc'')"
    by (simp_all add: example_request_def)
  note known = streamable_session_bound_once [OF refl q1 ne p, of "''http://localhost:3000''"
      "[PostSse (example_request None) (example_env 1 ''s1'')]" "example_env 2 ''s2''"]
  note unknown = streamable_session_bound_once [OF refl q2 ne p, of "''http://localhost:3000''"
      "[PostSse (example_request None) (example_env 1 ''s1'')]" "example_env 2 ''s2''"]
  have k: "mcp_session_id (example_request (Some ''s1'')) = Some ''s1''
           \<and> (''s1'', (0, ''fst_abc'')) \<in> set (streamableTransports ?st)"
    unfolding example_streamable_run by (simp add: example_request_def)
  have e: "\<not> (handle_throws (example_env 2 ''s2'') \<and> \<not> headersSent (example_env 2 ''s2''))"
    by (simp add: example_env_def)
  from known [THEN conjunct2, THEN conjunct1] k
  have "post_sse ''http://localhost:3000'' ?st
          (example_request (Some ''s1'')) (example_env 2 ''s2'')
        = (?st, HandleRequest 0
                # (if handle_throws (example_env 2 ''s2'') \<and> \<not> headersSent (example_env 2 ''s2'')
                   then [Respond 500 (JObj [(''error'', JStr ''Failed to handle request'')])]
                   else []))"
    by blast
  with e have a: "post_sse ''http://localhost:3000'' ?st
          (example_request (Some ''s1'')) (example_env 2 ''s2'') = (?st, [HandleRequest 0])"
    by (simp only: if_False)
  have m: "mcp_session_id (example_request (Some ''zz'')) = None
            \<or> (\<exists>sid. mcp_session_id (example_request (Some ''zz'')) = Some sid
                      \<and> sid \<notin> fst ` set (streamableTransports ?st))"
    unfolding example_streamable_run by (simp add: example_request_def)
  have n: "next_ref ?st = 2"
    unfolding example_streamable_run by simp
  have n3: "Suc 2 = 3" by simp
  from unknown [THEN conjunct2, THEN conjunct2] m obtain st' rest where
    "post_sse ''http://localhost:3000'' ?st
          (example_request (Some ''zz'')) (example_env 2 ''s2'')
        = (st', [NewStreamableTransport (next_ref ?st),
                 CreateMCPServer (Suc (next_ref ?st)) ''http://localhost:3000'' ''fst_abc'',
                 Connect (Suc (next_ref ?st)) (next_ref ?st)] @ rest)"
    by blast
  then have b: "post_sse ''http://localhost:3000'' ?st
          (example_request (Some ''zz'')) (example_env 2 ''s2'')
        = (st', [NewStreamableTransport 2,
                 CreateMCPServer 3 ''http://localhost:3000'' ''fst_abc'',
                 Connect 3 2] @ rest)"
    by (simp only: n n3)
  from p a b show ?thesis by blast
qed

lemma Map_delete_set_fresh: "k \<notin> fst ` set m \<Longrightarrow> Map_delete (Map_set m k v) k = m"
  by (induction m) (auto simp: Map_delete_def)

lemma distinct_fst_unique:
  "distinct (map fst xs) \<Longrightarrow> (a, b) \<in> set xs \<Longrightarrow> (a, c) \<in> set xs \<Longrightarrow> b = c"
  by (induction xs) (auto simp: image_iff)

lemma distinct_snd_unique:
  "distinct (map snd xs) \<Longrightarrow> (a, c) \<in> set xs \<Longrightarrow> (b, c) \<in> set xs \<Longrightarrow> a = b"
  by (induction xs) (auto simp: image_iff)

lemma legacy_table_keys:
  assumes "legacy_inv st opn" "k \<in> fst ` set (sseTransports st)"
  shows "k \<in> snd ` set (sseOnClose st)"
  using assms by (force simp: legacy_inv_def)

lemma legacy_close_removes:
  assumes inv: "legacy_inv st opn" and cb: "map_of (sseOnClose st) t = Some sid"
  shows "map snd (Map_delete (sseTransports st) sid) = removeAll t opn"
proof -
  from cb have reg: "(t, sid) \<in> set (sseOnClose st)" by (rule map_of_SomeD)
  have same: "fst e \<noteq> sid \<longleftrightarrow> snd e \<noteq> t" if "e \<in> set (sseTransports st)" for e
  proof -
    from inv that have "(snd e, fst e) \<in> set (sseOnClose st)"
      by (simp add: legacy_inv_def)
    with inv reg show ?thesis
      by (auto simp: legacy_inv_def dest: distinct_fst_unique distinct_snd_unique)
  qed
  have "Map_delete (sseTransports st) sid = filter (\<lambda>e. snd e \<noteq> t) (sseTransports st)"
    unfolding Map_delete_def
  proof (rule filter_cong [OF refl])
    fix e assume "e \<in> set (sseTransports st)"
    from same [OF this] show "(case e of (k', v) \<Rightarrow> k' \<noteq> sid) = (snd e \<noteq> t)"
      by (cases e) simp
  qed
  moreover from inv have "opn = map snd (sseTransports st)"
    by (simp add: legacy_inv_def)
  ultimately show ?thesis
    by (simp add: removeAll_filter_not_eq filter_map comp_def eq_commute)
qed

lemma legacy_inv_frame:
  assumes "legacy_inv st opn"
    and "sseTransports st' = sseTransports st" and "sseOnClose st' = sseOnClose st"
    and "next_ref st \<le> next_ref st'"
  shows "legacy_inv st' opn"
  using assms by (fastforce simp: legacy_inv_def)

lemma post_sse_frame:
  "sseTransports (fst (post_sse u st req env)) = sseTransports st
   \<and> sseOnClose (fst (post_sse u st req env)) = sseOnClose st
   \<and> next_ref st \<le> next_ref (fst (post_sse u st req env))"
  by (simp add: post_sse_def Let_def split: option.splits prod.splits query_value.splits)

lemma get_sse_not_accepted:
  assumes "\<not> (\<exists>tok. query_token req = Some (QString tok) \<and> tok \<noteq> []
                  \<and> startsWith tok ''fst_'')"
  shows "fst (get_sse u st req env) = st"
    and "opened_by (snd (get_sse u st req env)) env = []"
    and "generated_ids [GetSse req env] = []"
  using assms
  by (auto simp: get_sse_def unauthorized_def split: option.splits query_value.splits)

lemma get_sse_accepted:
  assumes "query_token req = Some (QString tok)" "tok \<noteq> []" "startsWith tok ''fst_''"
  shows "get_sse u st req env =
     ((if connect_throws env
       then st\<lparr>sseTransports :=
                 Map_delete (Map_set (sseTransports st) (sse_sessionId env) (next_ref st))
                   (sse_sessionId env),
               sseOnClose := (next_ref st, sse_sessionId env) # sseOnClose st,
               next_ref := next_ref st + 2\<rparr>
       else st\<lparr>sseTransports := Map_set (sseTransports st) (sse_sessionId env) (next_ref st),
               sseOnClose := (next_ref st, sse_sessionId env) # sseOnClose st,
               next_ref := next_ref st + 2\<rparr>),
      [NewSSEServerTransport (next_ref st), CreateMCPServer (Suc (next_ref st)) u tok,
       Connect (Suc (next_ref st)) (next_ref st)])"
  using assms by (simp add: get_sse_def Let_def)

lemma legacy_inv_get_sse:
  assumes inv: "legacy_inv st opn"
    and tok: "query_token req = Some (QString tok)" "tok \<noteq> []" "startsWith tok ''fst_''"
    and fresh: "sse_sessionId env \<notin> snd ` set (sseOnClose st)"
  shows "legacy_inv (fst (get_sse u st req env))
           (opn @ opened_by (snd (get_sse u st req env)) env)"
proof -
  have nokey: "sse_sessionId env \<notin> fst ` set (sseTransports st)"
    using legacy_table_keys [OF inv] fresh by blast
  have noref: "next_ref st \<notin> fst ` set (sseOnClose st)"
    using inv by (auto simp: legacy_inv_def)
  have older: "\<forall>e \<in> set (sseOnClose st). fst e < next_ref st + 2"
    using inv by (auto simp: legacy_inv_def)
  have notopen: "next_ref st \<notin> set opn"
    using inv noref by (force simp: legacy_inv_def)
  show ?thesis
  proof (cases "connect_throws env")
    case True
    with inv nokey noref fresh older notopen show ?thesis
      by (simp add: get_sse_accepted [OF tok] Map_delete_set_fresh legacy_inv_def)
  next
    case False
    with inv nokey noref fresh older notopen show ?thesis
      by (simp add: get_sse_accepted [OF tok] Map_set_fresh legacy_inv_def)
  qed
qed

lemma legacy_inv_sse_close:
  assumes inv: "legacy_inv st opn"
  shows "legacy_inv (sse_close st t) (removeAll t opn)"
proof (cases "map_of (sseOnClose st) t")
  case None
  then have "t \<notin> fst ` set (sseOnClose st)" by (simp add: map_of_eq_None_iff)
  with inv have "t \<notin> set opn" by (force simp: legacy_inv_def)
  with inv None show ?thesis by (simp add: sse_close_def)
next
  case (Some sid)
  have "\<forall>e \<in> set (Map_delete (sseTransports st) sid). (snd e, fst e) \<in> set (sseOnClose st)"
    using inv Map_delete_subset [of "sseTransports st" sid] by (auto simp: legacy_inv_def)
  with inv legacy_close_removes [OF inv Some] Some show ?thesis
    by (simp add: sse_close_def legacy_inv_def distinct_removeAll)
qed

lemma generated_ids_step:
  "snd ` set (sseOnClose (fst (step u st e)))
     \<subseteq> snd ` set (sseOnClose st) \<union> set (generated_ids [e])"
proof (cases e)
  case (PostSse req env)
  then show ?thesis using post_sse_frame [of u st req env] by simp
next
  case (GetSse req env)
  then show ?thesis
    by (auto simp: get_sse_def Let_def split: option.splits query_value.splits)
next
  case (PostMessage env)
  then show ?thesis by (simp add: post_message_def split: list.splits prod.splits)
next
  case (SseClose t)
  then show ?thesis by (simp add: sse_close_def split: option.splits)
next
  case (StreamableClose t)
  then show ?thesis by (simp add: streamable_close_def split: option.splits)
qed

lemma legacy_inv_step:
  assumes inv: "legacy_inv st opn"
    and fresh: "set (generated_ids [e]) \<inter> snd ` set (sseOnClose st) = {}"
  shows "legacy_inv (fst (step u st e)) (open_after opn (step u st e) e)"
proof (cases e)
  case (PostSse req env)
  with legacy_inv_frame [OF inv] post_sse_frame [of u st req env] show ?thesis
    by (cases "post_sse u st req env") simp
next
  case (GetSse req env)
  show ?thesis
  proof (cases "\<exists>tok. query_token req = Some (QString tok) \<and> tok \<noteq> []
                  \<and> startsWith tok ''fst_''")
    case False
    from get_sse_not_accepted(1,2) [OF this, of u st env] GetSse inv show ?thesis
      by (cases "get_sse u st req env") simp
  next
    case True
    then obtain tok where tok: "query_token req = Some (QString tok)" "tok \<noteq> []"
      "startsWith tok ''fst_''"
      by blast
    with fresh GetSse have "sse_sessionId env \<notin> snd ` set (sseOnClose st)"
      by simp
    from legacy_inv_get_sse [OF inv tok this, of u] GetSse show ?thesis
      by (cases "get_sse u st req env") simp
  qed
next
  case (PostMessage env)
  with inv show ?thesis by (simp add: post_message_def split: list.splits prod.splits)
next
  case (SseClose t)
  with legacy_inv_sse_close [OF inv] show ?thesis by simp
next
  case (StreamableClose t)
  with legacy_inv_frame [OF inv, of "streamable_close st t"] show ?thesis
    by (simp add: streamable_close_def split: option.splits)
qed

lemma generated_ids_Cons: "generated_ids (e # es) = generated_ids [e] @ generated_ids es"
  by (cases e) (auto split: option.splits query_value.splits)

lemma legacy_inv_run:
  "legacy_inv st opn \<Longrightarrow> distinct (generated_ids es)
     \<Longrightarrow> set (generated_ids es) \<inter> snd ` set (sseOnClose st) = {}
     \<Longrightarrow> legacy_inv (run u st es) (still_open u st opn es)"
proof (induction es arbitrary: st opn)
  case Nil
  then show ?case by simp
next
  case (Cons e es)
  have split: "generated_ids (e # es) = generated_ids [e] @ generated_ids es"
    by (rule generated_ids_Cons)
  with Cons.prems have here: "set (generated_ids [e]) \<inter> snd ` set (sseOnClose st) = {}"
    and later: "distinct (generated_ids es)"
    and apart: "set (generated_ids [e]) \<inter> set (generated_ids es) = {}"
    and old: "set (generated_ids es) \<inter> snd ` set (sseOnClose st) = {}"
    by auto
  from legacy_inv_step [OF Cons.prems(1) here]
  have inv': "legacy_inv (fst (step u st e)) (open_after opn (step u st e) e)" .
  from generated_ids_step [of u st e] apart old
  have "set (generated_ids es) \<inter> snd ` set (sseOnClose (fst (step u st e))) = {}"
    by blast
  from Cons.IH [OF inv' later this] show ?case by simp
qed

lemma legacy_inv_initial: "legacy_inv initial []"
  by (simp add: legacy_inv_def initial_def)


text \<open>
  C7. After any sequence of events in which the generated legacy session identifiers
  are pairwise distinct, a \<open>POST /message\<close> is answered with status 400 when the legacy
  table is empty, which is the case exactly when no legacy session is open; otherwise
  the message is handed to the transport of the legacy session that was opened last
  among those still open, and to no other: with sessions A then B open, to B and not
  to A. The tables are unchanged either way.
\<close>

theorem legacy_message_to_latest_open_session:
  assumes "distinct (generated_ids evs)"
    and "st = run u initial evs" and "opn = still_open u initial [] evs"
  shows "(sseTransports st = [] \<longrightarrow>
            post_message st env
              = (st, [Respond 400 (JObj [(''error'', JStr ''No active SSE connection'')])]))
       \<and> (sseTransports st = [] \<longleftrightarrow> opn = [])
       \<and> (sseTransports st \<noteq> [] \<longrightarrow>
            post_message st env
              = (st, HandlePostMessage (last opn)
                     # (if handle_throws env
                        then [Respond 500 (JObj [(''error'', JStr ''Failed to handle message'')])]
                        else [])))
       \<and> (\<forall>older a b. opn = older @ [a, b] \<longrightarrow>
            a \<noteq> b
            \<and> HandlePostMessage b \<in> set (snd (post_message st env))
            \<and> HandlePostMessage a \<notin> set (snd (post_message st env)))"
proof -
  have "legacy_inv (run u initial evs) (still_open u initial [] evs)"
    using assms(1) by (intro legacy_inv_run legacy_inv_initial) (simp_all add: initial_def)
  with assms have inv: "legacy_inv st opn" by simp
  then have opn: "map snd (sseTransports st) = opn" and d: "distinct opn"
    by (simp_all add: legacy_inv_def)
  have empty: "sseTransports st = [] \<longrightarrow>
            post_message st env
              = (st, [Respond 400 (JObj [(''error'', JStr ''No active SSE connection'')])])"
    by (simp add: post_message_def no_connection_def)
  have iff: "sseTransports st = [] \<longleftrightarrow> opn = []"
    using opn by auto
  have deliver: "post_message st env
              = (st, HandlePostMessage (last opn)
                     # (if handle_throws env
                        then [Respond 500 (JObj [(''error'', JStr ''Failed to handle message'')])]
                        else []))" if ne: "sseTransports st \<noteq> []"
  proof -
    from ne opn have "last opn = snd (last (sseTransports st))"
      by (metis last_map)
    with ne show ?thesis
      by (cases "sseTransports st")
        (simp_all add: post_message_def failed_message_def split: prod.splits)
  qed
  have pair: "a \<noteq> b
            \<and> HandlePostMessage b \<in> set (snd (post_message st env))
            \<and> HandlePostMessage a \<notin> set (snd (post_message st env))"
    if "opn = older @ [a, b]" for older a b
  proof -
    from that d have ab: "a \<noteq> b" by auto
    from that iff have "sseTransports st \<noteq> []" by simp
    from deliver [OF this] that ab show ?thesis by simp
  qed
  from empty iff deliver pair show ?thesis by blast
qed

lemma example_ids:
  "sse_sessionId (example_env 5 ''s1'') = ''5-fghij''"
  "sse_sessionId (example_env 6 ''s2'') = ''6-fghij''"
  by (simp_all add: sse_sessionId_def example_env_def decimal.simps)

lemma example_get_sse_A:
  "get_sse ''http://localhost:3000'' initial (example_request None) (example_env 5 ''s1'')
     = (\<lparr>sseTransports = [(''5-fghij'', 0)], streamableTransports = [],
         sseOnClose = [(0, ''5-fghij'')], streamableOnClose = [], next_ref = 2\<rparr>,
        [NewSSEServerTransport 0, CreateMCPServer 1 ''http://localhost:3000'' ''fst_abc'',
         Connect 1 0])"
proof -
  have t: "query_token (example_request None) = Some (QString ''fst_abc'')" "''fst_abc'' \<noteq> []"
    "startsWith ''fst_abc'' ''fst_''"
    by (simp_all add: example_request_def startsWith_def)
  have c: "\<not> connect_throws (example_env 5 ''s1'')" by (simp add: example_env_def)
  show ?thesis
    unfolding get_sse_accepted [OF t] example_ids using c by (simp add: initial_def)
qed

lemma example_get_sse_B:
  "get_sse ''http://localhost:3000''
     \<lparr>sseTransports = [(''5-fghij'', 0)], streamableTransports = [],
      sseOnClose = [(0, ''5-fghij'')], streamableOnClose = [], next_ref = 2\<rparr>
     (example_request None) (example_env 6 ''s2'')
     = (\<lparr>sseTransports = [(''5-fghij'', 0), (''6-fghij'', 2)], streamableTransports = [],
         sseOnClose = [(2, ''6-fghij''), (0, ''5-fghij'')], streamableOnClose = [],
         next_ref = 4\<rparr>,
        [NewSSEServerTransport 2, CreateMCPServer 3 ''http://localhost:3000'' ''fst_abc'',
         Connect 3 2])"
proof -
  have t: "query_token (example_request None) = Some (QString ''fst_abc'')" "''fst_abc'' \<noteq> []"
    "startsWith ''fst_abc'' ''fst_''"
    by (simp_all add: example_request_def startsWith_def)
  have c: "\<not> connect_throws (example_env 6 ''s2'')" by (simp add: example_env_def)
  show ?thesis
    unfolding get_sse_accepted [OF t] example_ids using c by simp
qed

lemma example_legacy_run:
  "run ''http://localhost:3000'' initial
     [GetSse (example_request None) (example_env 5 ''s1''),
      GetSse (example_request None) (example_env 6 ''s2'')]
   = \<lparr>sseTransports = [(''5-fghij'', 0), (''6-fghij'', 2)], streamableTransports = [],
      sseOnClose = [(2, ''6-fghij''), (0, ''5-fghij'')], streamableOnClose = [],
      next_ref = 4\<rparr>"
  by (simp add: example_get_sse_A example_get_sse_B)

lemma example_legacy_open:
  "still_open ''http://localhost:3000'' initial []
     [GetSse (example_request None) (example_env 5 ''s1''),
      GetSse (example_request None) (example_env 6 ''s2'')] = [0, 2]"
proof -
  have c: "\<not> connect_throws (example_env n s)" for n s
    by (simp add: example_env_def)
  show ?thesis
    by (simp add: example_get_sse_A example_get_sse_B c)
qed

lemma example_legacy_ids:
  "generated_ids [GetSse (example_request None) (example_env 5 ''s1''),
                  GetSse (example_request None) (example_env 6 ''s2'')]
     = [''5-fghij'', ''6-fghij'']"
  by (simp add: example_ids example_request_def startsWith_def)

theorem legacy_message_to_latest_open_session_witness:
  "distinct (generated_ids [GetSse (example_request None) (example_env 5 ''s1''),
                            GetSse (example_request None) (example_env 6 ''s2'')])
   \<and> still_open ''http://localhost:3000'' initial []
        [GetSse (example_request None) (example_env 5 ''s1''),
         GetSse (example_request None) (example_env 6 ''s2'')] = [0, 2]
   \<and> snd (post_message
        (run ''http://localhost:3000'' initial
           [GetSse (example_request None) (example_env 5 ''s1''),
            GetSse (example_request None) (example_env 6 ''s2'')])
        (example_env 7 ''s3'')) = [HandlePostMessage 2]"
proof -
  let ?evs = "[GetSse (example_request None) (example_env 5 ''s1''),
               GetSse (example_request None) (example_env 6 ''s2'')]"
  have d: "distinct (generated_ids ?evs)"
    unfolding example_legacy_ids by simp
  note routing = legacy_message_to_latest_open_session
      [OF d refl refl, of "''http://localhost:3000''" "example_env 7 ''s3''"]
  have ne: "sseTransports (run ''http://localhost:3000'' initial ?evs) \<noteq> []"
    unfolding example_legacy_run by simp
  have h: "\<not> handle_throws (example_env 7 ''s3'')" by (simp add: example_env_def)
  from routing [THEN conjunct2, THEN conjunct2, THEN conjunct1] ne
  have "post_message (run ''http://localhost:3000'' initial ?evs) (example_env 7 ''s3'')
          = (run ''http://localhost:3000'' initial ?evs,
             HandlePostMessage (last (still_open ''http://localhost:3000'' initial [] ?evs))
             # (if handle_throws (example_env 7 ''s3'')
                then [Respond 500 (JObj [(''error'', JStr ''Failed to handle message'')])]
                else []))"
    by blast
  then have "snd (post_message (run ''http://localhost:3000'' initial ?evs)
                    (example_env 7 ''s3''))
          = [HandlePostMessage (last (still_open ''http://localhost:3000'' initial [] ?evs))]"
    using h by (simp only: snd_conv if_False)
  then have "snd (post_message (run ''http://localhost:3000'' initial ?evs)
                    (example_env 7 ''s3'')) = [HandlePostMessage 2]"
    unfolding example_legacy_open by simp
  with d example_legacy_open show ?thesis by blast
qed

lemma example_colliding_ids:
  "sse_sessionId (example_env 5 ''s3'') = ''5-fghij''"
  by (simp add: sse_sessionId_def example_env_def decimal.simps)

lemma example_get_sse_collision:
  "get_sse ''http://localhost:3000''
     \<lparr>sseTransports = [(''5-fghij'', 0)], streamableTransports = [],
      sseOnClose = [(0, ''5-fghij'')], streamableOnClose = [], next_ref = 2\<rparr>
     (example_request None) (example_env 5 ''s3'')
     = (\<lparr>sseTransports = [(''5-fghij'', 2)], streamableTransports = [],
         sseOnClose = [(2, ''5-fghij''), (0, ''5-fghij'')], streamableOnClose = [],
         next_ref = 4\<rparr>,
        [NewSSEServerTransport 2, CreateMCPServer 3 ''http://localhost:3000'' ''fst_abc'',
         Connect 3 2])"
proof -
  have t: "query_token (example_request None) = Some (QString ''fst_abc'')" "''fst_abc'' \<noteq> []"
    "startsWith ''fst_abc'' ''fst_''"
    by (simp_all add: example_request_def startsWith_def)
  have c: "\<not> connect_throws (example_env 5 ''s3'')" by (simp add: example_env_def)
  show ?thesis
    unfolding get_sse_accepted [OF t] example_colliding_ids using c by simp
qed

lemma example_get_sse_collision_late:
  "get_sse ''http://localhost:3000''
     \<lparr>sseTransports = [(''5-fghij'', 0), (''6-fghij'', 2)], streamableTransports = [],
      sseOnClose = [(2, ''6-fghij''), (0, ''5-fghij'')], streamableOnClose = [],
      next_ref = 4\<rparr>
     (example_request None) (example_env 5 ''s3'')
     = (\<lparr>sseTransports = [(''5-fghij'', 4), (''6-fghij'', 2)], streamableTransports = [],
         sseOnClose = [(4, ''5-fghij''), (2, ''6-fghij''), (0, ''5-fghij'')],
         streamableOnClose = [], next_ref = 6\<rparr>,
        [NewSSEServerTransport 4, CreateMCPServer 5 ''http://localhost:3000'' ''fst_abc'',
         Connect 5 4])"
proof -
  have t: "query_token (example_request None) = Some (QString ''fst_abc'')" "''fst_abc'' \<noteq> []"
    "startsWith ''fst_abc'' ''fst_''"
    by (simp_all add: example_request_def startsWith_def)
  have c: "\<not> connect_throws (example_env 5 ''s3'')" by (simp add: example_env_def)
  show ?thesis
    unfolding get_sse_accepted [OF t] example_colliding_ids using c by simp
qed

text \<open>
  Without distinct identifiers the routing of C7 fails. Two legacy sessions opened in the
  same millisecond with the same random draw get the same identifier: the second
  replaces the first in the table, the close of the first then deletes the entry of the
  second, and a \<open>POST /message\<close> is answered with status 400 although the second session
  is still open. With a third session between them, the last one opened takes the table
  position of the first, and the message goes to the session in between.
\<close>

theorem legacy_id_collision_counterexample:
  "generated_ids [GetSse (example_request None) (example_env 5 ''s1''),
                  GetSse (example_request None) (example_env 5 ''s3''),
                  SseClose 0] = [''5-fghij'', ''5-fghij'']
   \<and> still_open ''http://localhost:3000'' initial []
        [GetSse (example_request None) (example_env 5 ''s1''),
         GetSse (example_request None) (example_env 5 ''s3''),
         SseClose 0] = [2]
   \<and> post_message
        (run ''http://localhost:3000'' initial
           [GetSse (example_request None) (example_env 5 ''s1''),
            GetSse (example_request None) (example_env 5 ''s3''),
            SseClose 0])
        (example_env 7 ''s4'')
       = (\<lparr>sseTransports = [], streamableTransports = [],
           sseOnClose = [(2, ''5-fghij''), (0, ''5-fghij'')], streamableOnClose = [],
           next_ref = 4\<rparr>,
          [Respond 400 (JObj [(''error'', JStr ''No active SSE connection'')])])
   \<and> still_open ''http://localhost:3000'' initial []
        [GetSse (example_request None) (example_env 5 ''s1''),
         GetSse (example_request None) (example_env 6 ''s2''),
         GetSse (example_request None) (example_env 5 ''s3'')] = [0, 2, 4]
   \<and> snd (post_message
        (run ''http://localhost:3000'' initial
           [GetSse (example_request None) (example_env 5 ''s1''),
            GetSse (example_request None) (example_env 6 ''s2''),
            GetSse (example_request None) (example_env 5 ''s3'')])
        (example_env 7 ''s4'')) = [HandlePostMessage 2]"
proof -
  have c: "\<not> connect_throws (example_env n s)" for n s
    by (simp add: example_env_def)
  have h: "\<not> handle_throws (example_env n s)" for n s
    by (simp add: example_env_def)
  have ids: "generated_ids [GetSse (example_request None) (example_env 5 ''s1''),
                  GetSse (example_request None) (example_env 5 ''s3''),
                  SseClose 0] = [''5-fghij'', ''5-fghij'']"
    by (simp add: example_ids example_colliding_ids example_request_def startsWith_def)
  have open1: "still_open ''http://localhost:3000'' initial []
        [GetSse (example_request None) (example_env 5 ''s1''),
         GetSse (example_request None) (example_env 5 ''s3''),
         SseClose 0] = [2]"
    by (simp add: example_get_sse_A example_get_sse_collision c)
  have run1: "run ''http://localhost:3000'' initial
           [GetSse (example_request None) (example_env 5 ''s1''),
            GetSse (example_request None) (example_env 5 ''s3''),
            SseClose 0]
       = \<lparr>sseTransports = [], streamableTransports = [],
           sseOnClose = [(2, ''5-fghij''), (0, ''5-fghij'')], streamableOnClose = [],
           next_ref = 4\<rparr>"
    by (simp add: example_get_sse_A example_get_sse_collision sse_close_def Map_delete_def)
  have open2: "still_open ''http://localhost:3000'' initial []
        [GetSse (example_request None) (example_env 5 ''s1''),
         GetSse (example_request None) (example_env 6 ''s2''),
         GetSse (example_request None) (example_env 5 ''s3'')] = [0, 2, 4]"
    by (simp add: example_get_sse_A example_get_sse_B example_get_sse_collision_late c)
  have run2: "run ''http://localhost:3000'' initial
           [GetSse (example_request None) (example_env 5 ''s1''),
            GetSse (example_request None) (example_env 6 ''s2''),
            GetSse (example_request None) (example_env 5 ''s3'')]
       = \<lparr>sseTransports = [(''5-fghij'', 4), (''6-fghij'', 2)], streamableTransports = [],
         sseOnClose = [(4, ''5-fghij''), (2, ''6-fghij''), (0, ''5-fghij'')],
         streamableOnClose = [], next_ref = 6\<rparr>"
    by (simp add: example_get_sse_A example_get_sse_B example_get_sse_collision_late)
  show ?thesis
    unfolding ids open1 open2 run1 run2
    by (simp add: post_message_def no_connection_def h)
qed

end
